theory Spec2Isabelle
  imports Main "HOL-Library.Word"
begin

section \<open>The escrow contract of contracts/Escrow.sol\<close>

text \<open>
  The contract is a Solidity ^0.8.19 contract. Its storage is a record, each external
  function is a HOL function from the call's environment and the storage before the call
  to either an error (the call reverts and nothing persists) or the storage after the call
  together with the effects of the call (the transfers made and the events emitted, in the
  order of the source). Arithmetic on \<open>uint256\<close> is checked, as the compiler makes it
  from version 0.8 on: an overflow or underflow reverts with a panic. Every function of
  the contract is here but the view \<open>getUserEscrows\<close>, which no property below is about.
\<close>

subsection \<open>Data\<close>

type_synonym uint256 = "256 word"
type_synonym address = "160 word"

datatype EscrowStatus = PENDING | DELIVERED | REFUNDED | DISPUTED

record EscrowTransaction =
  buyer :: address
  seller :: address
  amount :: uint256
  status :: EscrowStatus
  createdAt :: uint256
  deliveryDeadline :: uint256
  itemDescription :: string
  buyerConfirmed :: bool
  sellerConfirmed :: bool

text \<open>
  A Solidity mapping is total: a key that was never written reads as the zero value of the
  struct (null addresses, zero numbers, the first enum member, the empty string, false).
\<close>

definition zero_escrow :: EscrowTransaction where
  "zero_escrow = \<lparr>buyer = 0, seller = 0, amount = 0, status = PENDING, createdAt = 0,
     deliveryDeadline = 0, itemDescription = [], buyerConfirmed = False,
     sellerConfirmed = False\<rparr>"

text \<open>
  The storage variables of the contract, and \<open>balance\<close> for \<open>address(this).balance\<close>,
  the funds the contract holds.
\<close>

record contract =
  escrows :: "uint256 \<Rightarrow> EscrowTransaction"
  nextEscrowId :: uint256
  platformFee :: uint256
  platformWallet :: address
  owner :: address
  balance :: uint256

text \<open>
  What a call sees of its environment: \<open>msg.sender\<close>, \<open>block.timestamp\<close>, and for
  each account whether a plain transfer to it (2300 gas, no data) is accepted. An
  externally owned account accepts; a contract without a payable receive function, such
  as this contract itself, does not. Only \<open>createEscrow\<close> is payable, so \<open>msg.value\<close>
  is an argument of that function alone.
\<close>

record call_env =
  msg_sender :: address
  block_timestamp :: uint256
  accepts :: "address \<Rightarrow> bool"

text \<open>One constructor for each \<open>require\<close> of the source, named after its message.\<close>

datatype error =
    OnlyOwner               \<comment> \<open>Only owner can call this function\<close>
  | OnlyBuyer               \<comment> \<open>Only buyer can call this function\<close>
  | OnlyParticipant         \<comment> \<open>Only buyer or seller can call this function\<close>
  | EscrowDoesNotExist      \<comment> \<open>Escrow does not exist\<close>
  | EscrowNotPending        \<comment> \<open>Escrow is not pending\<close>
  | EscrowNotDisputed       \<comment> \<open>Escrow is not disputed\<close>
  | RefundBeforeDeadline    \<comment> \<open>Cannot refund before delivery deadline\<close>
  | AmountNotPositive       \<comment> \<open>Escrow amount must be greater than 0\<close>
  | InvalidSeller           \<comment> \<open>Invalid seller address\<close>
  | BuyerIsSeller           \<comment> \<open>Buyer and seller cannot be the same\<close>
  | InvalidDeliveryDays     \<comment> \<open>Invalid delivery days\<close>
  | FeeExceedsCap           \<comment> \<open>Fee cannot exceed 10%\<close>
  | InvalidWallet           \<comment> \<open>Invalid wallet address\<close>
  | ArithmeticPanic         \<comment> \<open>checked arithmetic: Panic(0x11)\<close>
  | TransferFailed          \<comment> \<open>address.transfer reverted\<close>

text \<open>The error classes of the specification, and the class of each revert.\<close>

datatype error_class = NotFound | Forbidden | InvalidState | TooEarly | InvalidInput | Fault

fun class_of :: "error \<Rightarrow> error_class" where
  "class_of OnlyOwner = Forbidden"
| "class_of OnlyBuyer = Forbidden"
| "class_of OnlyParticipant = Forbidden"
| "class_of EscrowDoesNotExist = NotFound"
| "class_of EscrowNotPending = InvalidState"
| "class_of EscrowNotDisputed = InvalidState"
| "class_of RefundBeforeDeadline = TooEarly"
| "class_of AmountNotPositive = InvalidInput"
| "class_of InvalidSeller = InvalidInput"
| "class_of BuyerIsSeller = InvalidInput"
| "class_of InvalidDeliveryDays = InvalidInput"
| "class_of FeeExceedsCap = InvalidInput"
| "class_of InvalidWallet = InvalidInput"
| "class_of ArithmeticPanic = Fault"
| "class_of TransferFailed = Fault"

datatype effect =
    Transfer address uint256
  | EscrowCreated uint256 address address uint256 string
  | DeliveryConfirmed uint256 address
  | EscrowCompleted uint256 uint256 uint256
  | EscrowRefunded uint256 uint256
  | DisputeRaised uint256 address

type_synonym 'a result = "error + 'a"

subsection \<open>Checked arithmetic and transfers\<close>

definition checked_add :: "uint256 \<Rightarrow> uint256 \<Rightarrow> uint256 option" where
  "checked_add a b = (if unat a + unat b < 2 ^ 256 then Some (a + b) else None)"

definition checked_sub :: "uint256 \<Rightarrow> uint256 \<Rightarrow> uint256 option" where
  "checked_sub a b = (if b \<le> a then Some (a - b) else None)"

definition checked_mul :: "uint256 \<Rightarrow> uint256 \<Rightarrow> uint256 option" where
  "checked_mul a b = (if unat a * unat b < 2 ^ 256 then Some (a * b) else None)"

text \<open>
  \<open>payable(to).transfer(v)\<close>: reverts when the contract holds less than \<open>v\<close> or the
  recipient does not accept. With 2300 gas the recipient cannot call back into the
  contract, so the storage is the same after the transfer but for the balance.
\<close>

definition transfer :: "call_env \<Rightarrow> address \<Rightarrow> uint256 \<Rightarrow> contract \<Rightarrow> (contract \<times> effect list) result" where
  "transfer env to v s =
     (if balance s < v \<or> \<not> accepts env to then Inl TransferFailed
      else Inr (s\<lparr>balance := balance s - v\<rparr>, [Transfer to v]))"

subsection \<open>Modifiers\<close>

definition onlyOwner :: "call_env \<Rightarrow> contract \<Rightarrow> bool" where
  "onlyOwner env s \<longleftrightarrow> msg_sender env = owner s"

definition onlyBuyer :: "call_env \<Rightarrow> uint256 \<Rightarrow> contract \<Rightarrow> bool" where
  "onlyBuyer env escrowId s \<longleftrightarrow> msg_sender env = buyer (escrows s escrowId)"

definition onlyParticipant :: "call_env \<Rightarrow> uint256 \<Rightarrow> contract \<Rightarrow> bool" where
  "onlyParticipant env escrowId s \<longleftrightarrow>
     msg_sender env = buyer (escrows s escrowId) \<or> msg_sender env = seller (escrows s escrowId)"

definition escrowExists :: "uint256 \<Rightarrow> contract \<Rightarrow> bool" where
  "escrowExists escrowId s \<longleftrightarrow> escrowId < nextEscrowId s"

definition escrowPending :: "uint256 \<Rightarrow> contract \<Rightarrow> bool" where
  "escrowPending escrowId s \<longleftrightarrow> status (escrows s escrowId) = PENDING"

subsection \<open>The contract's functions\<close>

definition constructor :: "call_env \<Rightarrow> address \<Rightarrow> contract" where
  "constructor env platformWallet' =
     \<lparr>escrows = (\<lambda>_. zero_escrow), nextEscrowId = 1, platformFee = 250,
      platformWallet = platformWallet', owner = msg_sender env, balance = 0\<rparr>"

text \<open>Writing one field of a stored escrow (\<open>escrows[escrowId].f = v\<close>).\<close>

definition update_escrow ::
  "uint256 \<Rightarrow> (EscrowTransaction \<Rightarrow> EscrowTransaction) \<Rightarrow> contract \<Rightarrow> contract" where
  "update_escrow escrowId f s = s\<lparr>escrows := (escrows s)(escrowId := f (escrows s escrowId))\<rparr>"

text \<open>
  \<open>createEscrow\<close> is payable: the attached funds are part of the contract's balance from the
  start of the call. The chain keeps every balance below \<open>2 ^ 256\<close>, so this sum is not
  a checked one in the source.
\<close>

definition createEscrow ::
  "call_env \<Rightarrow> uint256 \<Rightarrow> address \<Rightarrow> string \<Rightarrow> uint256 \<Rightarrow> contract
     \<Rightarrow> (uint256 \<times> contract \<times> effect list) result" where
  "createEscrow env msg_value seller' itemDescription' deliveryDays s0 =
     (let s = s0\<lparr>balance := balance s0 + msg_value\<rparr> in
      if \<not> msg_value > 0 then Inl AmountNotPositive
      else if \<not> seller' \<noteq> 0 then Inl InvalidSeller
      else if \<not> seller' \<noteq> msg_sender env then Inl BuyerIsSeller
      else if \<not> (deliveryDays > 0 \<and> deliveryDays \<le> 365) then Inl InvalidDeliveryDays
      else
        (case checked_add (nextEscrowId s) 1 of
           None \<Rightarrow> Inl ArithmeticPanic
         | Some next' \<Rightarrow>
            (let escrowId = nextEscrowId s;
                 s1 = s\<lparr>nextEscrowId := next'\<rparr>
             in (case checked_mul deliveryDays 86400 of
                   None \<Rightarrow> Inl ArithmeticPanic
                 | Some secs \<Rightarrow>
                    (case checked_add (block_timestamp env) secs of
                       None \<Rightarrow> Inl ArithmeticPanic
                     | Some deadline \<Rightarrow>
                        Inr (escrowId,
                             s1\<lparr>escrows := (escrows s1)(escrowId :=
                                \<lparr>buyer = msg_sender env, seller = seller', amount = msg_value,
                                 status = PENDING, createdAt = block_timestamp env,
                                 deliveryDeadline = deadline,
                                 itemDescription = itemDescription',
                                 buyerConfirmed = False, sellerConfirmed = False\<rparr>)\<rparr>,
                             [EscrowCreated escrowId (msg_sender env) seller' msg_value
                                itemDescription']))))))"

text \<open>The internal function \<open>_completeEscrow\<close>.\<close>

definition completeEscrow ::
  "call_env \<Rightarrow> uint256 \<Rightarrow> contract \<Rightarrow> (contract \<times> effect list) result" where
  "completeEscrow env escrowId s0 =
     (let s1 = update_escrow escrowId (\<lambda>e. e\<lparr>status := DELIVERED\<rparr>) s0;
          escrow = escrows s1 escrowId
      in (case checked_mul (amount escrow) (platformFee s1) of
            None \<Rightarrow> Inl ArithmeticPanic
          | Some product \<Rightarrow>
             (let feeAmount = product div 10000
              in (case checked_sub (amount escrow) feeAmount of
                    None \<Rightarrow> Inl ArithmeticPanic
                  | Some sellerAmount \<Rightarrow>
                     (case (if feeAmount > 0
                            then transfer env (platformWallet s1) feeAmount s1
                            else Inr (s1, [])) of
                        Inl err \<Rightarrow> Inl err
                      | Inr (s2, fx1) \<Rightarrow>
                         (case transfer env (seller escrow) sellerAmount s2 of
                            Inl err \<Rightarrow> Inl err
                          | Inr (s3, fx2) \<Rightarrow>
                             Inr (s3, fx1 @ fx2 @
                                  [EscrowCompleted escrowId sellerAmount feeAmount])))))))"

definition confirmDelivery ::
  "call_env \<Rightarrow> uint256 \<Rightarrow> contract \<Rightarrow> (contract \<times> effect list) result" where
  "confirmDelivery env escrowId s =
     (if \<not> escrowExists escrowId s then Inl EscrowDoesNotExist
      else if \<not> escrowPending escrowId s then Inl EscrowNotPending
      else if \<not> onlyParticipant env escrowId s then Inl OnlyParticipant
      else
        let s1 = (if msg_sender env = buyer (escrows s escrowId)
                  then update_escrow escrowId (\<lambda>e. e\<lparr>buyerConfirmed := True\<rparr>) s
                  else update_escrow escrowId (\<lambda>e. e\<lparr>sellerConfirmed := True\<rparr>) s);
            fx = [DeliveryConfirmed escrowId (msg_sender env)];
            escrow = escrows s1 escrowId
        in if buyerConfirmed escrow \<or> (buyerConfirmed escrow \<and> sellerConfirmed escrow)
           then (case completeEscrow env escrowId s1 of
                   Inl err \<Rightarrow> Inl err
                 | Inr (s2, fx2) \<Rightarrow> Inr (s2, fx @ fx2))
           else Inr (s1, fx))"

definition requestRefund ::
  "call_env \<Rightarrow> uint256 \<Rightarrow> contract \<Rightarrow> (contract \<times> effect list) result" where
  "requestRefund env escrowId s =
     (if \<not> escrowExists escrowId s then Inl EscrowDoesNotExist
      else if \<not> escrowPending escrowId s then Inl EscrowNotPending
      else if \<not> onlyBuyer env escrowId s then Inl OnlyBuyer
      else if \<not> block_timestamp env > deliveryDeadline (escrows s escrowId)
        then Inl RefundBeforeDeadline
      else
        let s1 = update_escrow escrowId (\<lambda>e. e\<lparr>status := REFUNDED\<rparr>) s;
            escrow = escrows s1 escrowId
        in (case transfer env (buyer escrow) (amount escrow) s1 of
              Inl err \<Rightarrow> Inl err
            | Inr (s2, fx) \<Rightarrow> Inr (s2, fx @ [EscrowRefunded escrowId (amount escrow)])))"

definition raiseDispute ::
  "call_env \<Rightarrow> uint256 \<Rightarrow> contract \<Rightarrow> (contract \<times> effect list) result" where
  "raiseDispute env escrowId s =
     (if \<not> escrowExists escrowId s then Inl EscrowDoesNotExist
      else if \<not> escrowPending escrowId s then Inl EscrowNotPending
      else if \<not> onlyParticipant env escrowId s then Inl OnlyParticipant
      else Inr (update_escrow escrowId (\<lambda>e. e\<lparr>status := DISPUTED\<rparr>) s,
                [DisputeRaised escrowId (msg_sender env)]))"

definition resolveDispute ::
  "call_env \<Rightarrow> uint256 \<Rightarrow> bool \<Rightarrow> contract \<Rightarrow> (contract \<times> effect list) result" where
  "resolveDispute env escrowId refundToBuyer s =
     (if \<not> onlyOwner env s then Inl OnlyOwner
      else if \<not> escrowExists escrowId s then Inl EscrowDoesNotExist
      else if \<not> status (escrows s escrowId) = DISPUTED then Inl EscrowNotDisputed
      else if refundToBuyer then
        (let s1 = update_escrow escrowId (\<lambda>e. e\<lparr>status := REFUNDED\<rparr>) s
         in (case transfer env (buyer (escrows s1 escrowId)) (amount (escrows s1 escrowId)) s1 of
               Inl err \<Rightarrow> Inl err
             | Inr (s2, fx) \<Rightarrow>
                 Inr (s2, fx @ [EscrowRefunded escrowId (amount (escrows s2 escrowId))])))
      else completeEscrow env escrowId s)"

definition getEscrow :: "uint256 \<Rightarrow> contract \<Rightarrow> EscrowTransaction result" where
  "getEscrow escrowId s =
     (if \<not> escrowExists escrowId s then Inl EscrowDoesNotExist
      else Inr (escrows s escrowId))"

definition updatePlatformFee ::
  "call_env \<Rightarrow> uint256 \<Rightarrow> contract \<Rightarrow> (contract \<times> effect list) result" where
  "updatePlatformFee env newFee s =
     (if \<not> onlyOwner env s then Inl OnlyOwner
      else if \<not> newFee \<le> 1000 then Inl FeeExceedsCap
      else Inr (s\<lparr>platformFee := newFee\<rparr>, []))"

definition updatePlatformWallet ::
  "call_env \<Rightarrow> address \<Rightarrow> contract \<Rightarrow> (contract \<times> effect list) result" where
  "updatePlatformWallet env newWallet s =
     (if \<not> onlyOwner env s then Inl OnlyOwner
      else if \<not> newWallet \<noteq> 0 then Inl InvalidWallet
      else Inr (s\<lparr>platformWallet := newWallet\<rparr>, []))"

definition emergencyWithdraw :: "call_env \<Rightarrow> contract \<Rightarrow> (contract \<times> effect list) result" where
  "emergencyWithdraw env s =
     (if \<not> onlyOwner env s then Inl OnlyOwner
      else transfer env (owner s) (balance s) s)"

definition getContractBalance :: "contract \<Rightarrow> uint256" where
  "getContractBalance s = balance s"

definition isDeliveryOverdue :: "call_env \<Rightarrow> uint256 \<Rightarrow> contract \<Rightarrow> bool result" where
  "isDeliveryOverdue env escrowId s =
     (if \<not> escrowExists escrowId s then Inl EscrowDoesNotExist
      else Inr (block_timestamp env > deliveryDeadline (escrows s escrowId)))"

subsection \<open>Calls as data\<close>

text \<open>
  A state-changing call of the contract's interface, as a value. \<open>exec\<close> dispatches it
  to the function; \<open>step\<close> is what persists: the storage after a call that returns, the
  storage before a call that reverts.
\<close>

datatype operation =
    CreateEscrow uint256 address string uint256
  | ConfirmDelivery uint256
  | RequestRefund uint256
  | RaiseDispute uint256
  | ResolveDispute uint256 bool
  | UpdatePlatformFee uint256
  | UpdatePlatformWallet address
  | EmergencyWithdraw

fun exec :: "call_env \<Rightarrow> operation \<Rightarrow> contract \<Rightarrow> (contract \<times> effect list) result" where
  "exec env (CreateEscrow msg_value seller' itemDescription' deliveryDays) s =
     (case createEscrow env msg_value seller' itemDescription' deliveryDays s of
        Inl err \<Rightarrow> Inl err
      | Inr (escrowId, s', fx) \<Rightarrow> Inr (s', fx))"
| "exec env (ConfirmDelivery escrowId) s = confirmDelivery env escrowId s"
| "exec env (RequestRefund escrowId) s = requestRefund env escrowId s"
| "exec env (RaiseDispute escrowId) s = raiseDispute env escrowId s"
| "exec env (ResolveDispute escrowId refundToBuyer) s = resolveDispute env escrowId refundToBuyer s"
| "exec env (UpdatePlatformFee newFee) s = updatePlatformFee env newFee s"
| "exec env (UpdatePlatformWallet newWallet) s = updatePlatformWallet env newWallet s"
| "exec env EmergencyWithdraw s = emergencyWithdraw env s"

definition step :: "call_env \<Rightarrow> operation \<Rightarrow> contract \<Rightarrow> contract" where
  "step env op' s = (case exec env op' s of Inl err \<Rightarrow> s | Inr (s', fx) \<Rightarrow> s')"

text \<open>The escrow a call names, if it names one.\<close>

fun target :: "operation \<Rightarrow> uint256 option" where
  "target (ConfirmDelivery escrowId) = Some escrowId"
| "target (RequestRefund escrowId) = Some escrowId"
| "target (RaiseDispute escrowId) = Some escrowId"
| "target (ResolveDispute escrowId refundToBuyer) = Some escrowId"
| "target other = None"

text \<open>The payments among the effects of a call: recipient and amount, in order.\<close>

fun transfers_of :: "effect list \<Rightarrow> (address \<times> nat) list" where
  "transfers_of [] = []"
| "transfers_of (Transfer to v # fx) = (to, unat v) # transfers_of fx"
| "transfers_of (other # fx) = transfers_of fx"

text \<open>
  A sequence of calls, each with its environment. A call that reverts leaves the storage
  as it was; the log keeps the calls that returned, with their effects.
\<close>

fun run :: "contract \<Rightarrow> (call_env \<times> operation) list \<Rightarrow> contract \<times> (operation \<times> effect list) list" where
  "run s [] = (s, [])"
| "run s ((env, op') # calls) =
     (case exec env op' s of
        Inl err \<Rightarrow> run s calls
      | Inr (s', fx) \<Rightarrow> (fst (run s' calls), (op', fx) # snd (run s' calls)))"

subsection \<open>The specification's settlement, in unbounded arithmetic\<close>

text \<open>
  Section 4.3 of the specification: \<open>feeAmount = floor(amount * platformFeeBps / 10000)\<close>,
  \<open>sellerAmount = amount - feeAmount\<close>; the fee goes to the platform account unless it is
  zero, the rest to the seller. Section 3 allows a status to change from PENDING to any
  other, and from DISPUTED to DELIVERED or REFUNDED.
\<close>

definition spec_feeAmount :: "nat \<Rightarrow> nat \<Rightarrow> nat" where
  "spec_feeAmount amt feeBps = amt * feeBps div 10000"

definition spec_sellerAmount :: "nat \<Rightarrow> nat \<Rightarrow> nat" where
  "spec_sellerAmount amt feeBps = amt - spec_feeAmount amt feeBps"

definition spec_settle :: "address \<Rightarrow> address \<Rightarrow> nat \<Rightarrow> nat \<Rightarrow> (address \<times> nat) list" where
  "spec_settle platform seller' amt feeBps =
     (if spec_feeAmount amt feeBps = 0 then [] else [(platform, spec_feeAmount amt feeBps)])
     @ [(seller', spec_sellerAmount amt feeBps)]"

fun spec_transition :: "EscrowStatus \<Rightarrow> EscrowStatus \<Rightarrow> bool" where
  "spec_transition PENDING DELIVERED = True"
| "spec_transition PENDING REFUNDED = True"
| "spec_transition PENDING DISPUTED = True"
| "spec_transition DISPUTED DELIVERED = True"
| "spec_transition DISPUTED REFUNDED = True"
| "spec_transition a b = False"

subsection \<open>A sample ledger\<close>

definition alice :: address where "alice = 0xA11CE"
definition bob :: address where "bob = 0xB0B"
definition carol :: address where "carol = 0xCA401"
definition treasury :: address where "treasury = 0xFEE"

definition ether :: uint256 where "ether = 10 ^ 18"

definition env_of :: "address \<Rightarrow> uint256 \<Rightarrow> call_env" where
  "env_of who now = \<lparr>msg_sender = who, block_timestamp = now, accepts = (\<lambda>a. True)\<rparr>"

text \<open>Carol deploys; Alice escrows 100 ether for Bob, seven days for delivery.\<close>

definition deployed :: contract where
  "deployed = constructor (env_of carol 1000) treasury"

definition sample_escrow :: EscrowTransaction where
  "sample_escrow = \<lparr>buyer = alice, seller = bob, amount = 100 * ether, status = PENDING,
     createdAt = 1000, deliveryDeadline = 605800, itemDescription = ''first edition'',
     buyerConfirmed = False, sellerConfirmed = False\<rparr>"

definition funded :: contract where
  "funded = \<lparr>escrows = (\<lambda>i. zero_escrow)(1 := sample_escrow), nextEscrowId = 2,
     platformFee = 250, platformWallet = treasury, owner = carol, balance = 100 * ether\<rparr>"

text \<open>The same ledger with escrow 1 in another status.\<close>

definition set_status :: "EscrowStatus \<Rightarrow> contract \<Rightarrow> contract" where
  "set_status st s = update_escrow 1 (\<lambda>e. e\<lparr>status := st\<rparr>) s"

subsection \<open>Closed forms of the two payouts\<close>

text \<open>
  What \<open>_completeEscrow\<close> needs to return, the storage it leaves and the effects it has,
  read off its body; the same for the refund of \<open>requestRefund\<close> and
  \<open>resolveDispute\<close>. The lemmas below prove that the functions agree with them.
\<close>

definition can_settle :: "call_env \<Rightarrow> uint256 \<Rightarrow> contract \<Rightarrow> bool" where
  "can_settle env escrowId s \<longleftrightarrow>
     (let e = escrows s escrowId; fee = amount e * platformFee s div 10000
      in unat (amount e) * unat (platformFee s) < 2 ^ 256 \<and> fee \<le> amount e
         \<and> amount e \<le> balance s \<and> (fee > 0 \<longrightarrow> accepts env (platformWallet s))
         \<and> accepts env (seller e))"

definition settled :: "uint256 \<Rightarrow> contract \<Rightarrow> contract" where
  "settled escrowId s =
     (update_escrow escrowId (\<lambda>e. e\<lparr>status := DELIVERED\<rparr>) s)
       \<lparr>balance := balance s - amount (escrows s escrowId)\<rparr>"

definition settle_effects :: "uint256 \<Rightarrow> contract \<Rightarrow> effect list" where
  "settle_effects escrowId s =
     (let e = escrows s escrowId; fee = amount e * platformFee s div 10000
      in (if fee > 0 then [Transfer (platformWallet s) fee] else [])
         @ [Transfer (seller e) (amount e - fee), EscrowCompleted escrowId (amount e - fee) fee])"

definition can_refund :: "call_env \<Rightarrow> uint256 \<Rightarrow> contract \<Rightarrow> bool" where
  "can_refund env escrowId s \<longleftrightarrow>
     amount (escrows s escrowId) \<le> balance s \<and> accepts env (buyer (escrows s escrowId))"

definition refunded :: "uint256 \<Rightarrow> contract \<Rightarrow> contract" where
  "refunded escrowId s =
     (update_escrow escrowId (\<lambda>e. e\<lparr>status := REFUNDED\<rparr>) s)
       \<lparr>balance := balance s - amount (escrows s escrowId)\<rparr>"

definition refund_effects :: "uint256 \<Rightarrow> contract \<Rightarrow> effect list" where
  "refund_effects escrowId s =
     [Transfer (buyer (escrows s escrowId)) (amount (escrows s escrowId)),
      EscrowRefunded escrowId (amount (escrows s escrowId))]"

subsection \<open>Paying out, as the specification has it\<close>

text \<open>
  Section 3 of the specification: the funds of an escrow move once, to seller and platform
  on completion or to the buyer on refund. \<open>settlement_path\<close> says that a call took an
  open escrow to DELIVERED paying the settlement, or to REFUNDED paying the buyer the
  whole amount; \<open>pays_as_specified\<close> that a call paid nothing or paid so for the escrow it
  names; \<open>payouts\<close> counts the calls of a log that paid for an escrow.
\<close>

definition settlement_path :: "contract \<Rightarrow> uint256 \<Rightarrow> contract \<Rightarrow> effect list \<Rightarrow> bool" where
  "settlement_path s escrowId s' fx \<longleftrightarrow>
     (status (escrows s escrowId) = PENDING \<or> status (escrows s escrowId) = DISPUTED)
     \<and> ((status (escrows s' escrowId) = DELIVERED
          \<and> transfers_of fx =
              spec_settle (platformWallet s) (seller (escrows s escrowId))
                (unat (amount (escrows s escrowId))) (unat (platformFee s)))
        \<or> (status (escrows s' escrowId) = REFUNDED
          \<and> transfers_of fx =
              [(buyer (escrows s escrowId), unat (amount (escrows s escrowId)))]))"

definition pays_as_specified :: "operation \<Rightarrow> contract \<Rightarrow> contract \<Rightarrow> effect list \<Rightarrow> bool" where
  "pays_as_specified op' s s' fx \<longleftrightarrow>
     transfers_of fx = []
     \<or> (case target op' of
          None \<Rightarrow> False
        | Some escrowId \<Rightarrow> escrowExists escrowId s \<and> settlement_path s escrowId s' fx)"

definition payouts :: "uint256 \<Rightarrow> (operation \<times> effect list) list \<Rightarrow> nat" where
  "payouts escrowId log =
     length (filter (\<lambda>(op', fx). target op' = Some escrowId \<and> transfers_of fx \<noteq> []) log)"

section \<open>Properties\<close>

subsection \<open>Evaluating the sample ledger\<close>

lemmas sample_defs = alice_def bob_def carol_def treasury_def ether_def env_of_def deployed_def
  sample_escrow_def funded_def zero_escrow_def constructor_def set_status_def update_escrow_def

lemmas guard_defs = escrowExists_def escrowPending_def onlyOwner_def onlyBuyer_def
  onlyParticipant_def

lemma create_sample:
  "createEscrow (env_of alice 1000) (100 * ether) bob ''first edition'' 7 deployed
     = Inr (1, funded, [EscrowCreated 1 alice bob (100 * ether) ''first edition''])"
  by (simp add: createEscrow_def sample_defs checked_add_def checked_mul_def Let_def)

lemma raise_sample:
  "raiseDispute (env_of bob 2000) 1 funded
     = Inr (set_status DISPUTED funded, [DisputeRaised 1 bob])"
  by (simp add: raiseDispute_def sample_defs guard_defs)

subsection \<open>The payouts in closed form\<close>

lemma unat_fee:
  "unat a * unat f < 2 ^ 256 \<Longrightarrow> unat ((a :: uint256) * f div 10000) = unat a * unat f div 10000"
  by (simp add: unat_div unat_mult_lem [THEN iffD1])

lemma pay_in_two_parts:
  "(fee :: uint256) \<le> a \<Longrightarrow> (fee \<le> b \<and> a - fee \<le> b - fee) = (a \<le> b)"
  by unat_arith

lemma transfer_Inr_iff:
  "transfer env to v s = Inr (s', fx) \<longleftrightarrow>
     v \<le> balance s \<and> accepts env to \<and> s' = s\<lparr>balance := balance s - v\<rparr> \<and> fx = [Transfer to v]"
  by (auto simp: transfer_def)

lemma completeEscrow_iff:
  "completeEscrow env escrowId s = Inr (s', fx) \<longleftrightarrow>
     can_settle env escrowId s \<and> s' = settled escrowId s \<and> fx = settle_effects escrowId s"
proof -
  define a where "a = amount (escrows s escrowId)"
  define fee where "fee = a * platformFee s div 10000"
  define s1 where "s1 = update_escrow escrowId (\<lambda>e. e\<lparr>status := DELIVERED\<rparr>) s"
  have s1: "amount (escrows s1 escrowId) = a" "platformFee s1 = platformFee s"
    "platformWallet s1 = platformWallet s"
    "seller (escrows s1 escrowId) = seller (escrows s escrowId)" "balance s1 = balance s"
    by (simp_all add: s1_def a_def update_escrow_def)
  note folds = s1_def [symmetric] a_def [symmetric] fee_def [symmetric]
  show ?thesis
  proof (cases "unat a * unat (platformFee s) < 2 ^ 256 \<and> fee \<le> a")
    case False
    then show ?thesis
      by (auto simp: completeEscrow_def can_settle_def Let_def checked_mul_def checked_sub_def
          folds s1)
  next
    case ok: True
    show ?thesis
    proof (cases "fee > 0")
      case True
      have "completeEscrow env escrowId s = Inr (s', fx) \<longleftrightarrow>
         fee \<le> balance s \<and> accepts env (platformWallet s) \<and> a - fee \<le> balance s - fee
         \<and> accepts env (seller (escrows s escrowId))
         \<and> s' = s1\<lparr>balance := balance s - fee - (a - fee)\<rparr>
         \<and> fx = [Transfer (platformWallet s) fee,
                 Transfer (seller (escrows s escrowId)) (a - fee),
                 EscrowCompleted escrowId (a - fee) fee]"
        using ok True
        by (auto simp: completeEscrow_def Let_def checked_mul_def checked_sub_def folds s1
            transfer_def split: sum.splits prod.splits)
      moreover have "fee \<le> balance s \<and> a - fee \<le> balance s - fee \<longleftrightarrow> a \<le> balance s"
        using ok pay_in_two_parts by blast
      ultimately show ?thesis
        using ok True
        by (auto simp: can_settle_def settled_def settle_effects_def Let_def folds)
    next
      case False
      then have z: "fee = 0" by (simp add: word_gt_0)
      have "completeEscrow env escrowId s = Inr (s', fx) \<longleftrightarrow>
         a \<le> balance s \<and> accepts env (seller (escrows s escrowId))
         \<and> s' = s1\<lparr>balance := balance s - a\<rparr>
         \<and> fx = [Transfer (seller (escrows s escrowId)) a, EscrowCompleted escrowId a 0]"
        using ok z
        by (auto simp: completeEscrow_def Let_def checked_mul_def checked_sub_def folds s1
            transfer_def split: sum.splits prod.splits)
      then show ?thesis
        using ok z
        by (auto simp: can_settle_def settled_def settle_effects_def Let_def folds)
    qed
  qed
qed

lemma completeEscrow_Inl_iff:
  "(\<exists>err. completeEscrow env escrowId s = Inl err) \<longleftrightarrow> \<not> can_settle env escrowId s"
proof (cases "completeEscrow env escrowId s")
  case (Inl a)
  then show ?thesis using completeEscrow_iff [of env escrowId s] by auto
next
  case (Inr b)
  then show ?thesis using completeEscrow_iff [of env escrowId s "fst b" "snd b"] by auto
qed

lemma refund_transfer_iff:
  "transfer env (buyer (escrows s escrowId)) (amount (escrows s escrowId))
       (update_escrow escrowId (\<lambda>e. e\<lparr>status := REFUNDED\<rparr>) s) = Inr (s', fx) \<longleftrightarrow>
     can_refund env escrowId s \<and> s' = refunded escrowId s
     \<and> fx = [Transfer (buyer (escrows s escrowId)) (amount (escrows s escrowId))]"
  by (auto simp: transfer_Inr_iff can_refund_def refunded_def update_escrow_def)

text \<open>The payments of a settlement are those of the specification.\<close>

lemma transfers_of_append: "transfers_of (fx @ fx') = transfers_of fx @ transfers_of fx'"
  by (induction fx rule: transfers_of.induct) simp_all

lemma transfers_of_settle_effects:
  assumes "can_settle env escrowId s"
  shows "transfers_of (settle_effects escrowId s) =
      spec_settle (platformWallet s) (seller (escrows s escrowId))
        (unat (amount (escrows s escrowId))) (unat (platformFee s))"
    and "spec_feeAmount (unat (amount (escrows s escrowId))) (unat (platformFee s))
        + spec_sellerAmount (unat (amount (escrows s escrowId))) (unat (platformFee s))
        = unat (amount (escrows s escrowId))"
    and "unat (amount (escrows s escrowId) * platformFee s div 10000)
        = spec_feeAmount (unat (amount (escrows s escrowId))) (unat (platformFee s))"
    and "unat (amount (escrows s escrowId) - amount (escrows s escrowId) * platformFee s div 10000)
        = spec_sellerAmount (unat (amount (escrows s escrowId))) (unat (platformFee s))"
proof -
  define a where "a = amount (escrows s escrowId)"
  define fee where "fee = a * platformFee s div 10000"
  have ok: "unat a * unat (platformFee s) < 2 ^ 256" "fee \<le> a"
    using assms by (simp_all add: can_settle_def Let_def a_def fee_def)
  have fee: "unat fee = spec_feeAmount (unat a) (unat (platformFee s))"
    using ok(1) by (simp add: fee_def unat_fee spec_feeAmount_def)
  have rest: "unat (a - fee) = spec_sellerAmount (unat a) (unat (platformFee s))"
    using ok(2) fee by (simp add: unat_sub spec_sellerAmount_def)
  have pos: "fee > 0 \<longleftrightarrow> spec_feeAmount (unat a) (unat (platformFee s)) \<noteq> 0"
    using fee by (simp add: word_gt_0 unat_eq_0 [symmetric])
  show "transfers_of (settle_effects escrowId s) =
      spec_settle (platformWallet s) (seller (escrows s escrowId))
        (unat (amount (escrows s escrowId))) (unat (platformFee s))"
    using fee rest pos
    by (simp add: settle_effects_def spec_settle_def Let_def a_def [symmetric] fee_def [symmetric])
  have "unat fee \<le> unat a" using ok(2) by (simp add: word_le_nat_alt)
  then show "spec_feeAmount (unat (amount (escrows s escrowId))) (unat (platformFee s))
        + spec_sellerAmount (unat (amount (escrows s escrowId))) (unat (platformFee s))
        = unat (amount (escrows s escrowId))"
    using fee by (simp add: spec_sellerAmount_def a_def [symmetric])
  show "unat (amount (escrows s escrowId) * platformFee s div 10000)
        = spec_feeAmount (unat (amount (escrows s escrowId))) (unat (platformFee s))"
    using fee by (simp add: a_def fee_def)
  show "unat (amount (escrows s escrowId) - amount (escrows s escrowId) * platformFee s div 10000)
        = spec_sellerAmount (unat (amount (escrows s escrowId))) (unat (platformFee s))"
    using rest by (simp add: a_def fee_def)
qed

subsection \<open>The order of the guards\<close>

text \<open>
  C10. In \<open>confirmDelivery\<close>, \<open>requestRefund\<close> and \<open>raiseDispute\<close> the modifiers
  \<open>escrowExists\<close> and \<open>escrowPending\<close> come before the role modifier. So, whoever
  calls: an identifier that fails the existence check is rejected with the existence
  error, and an existing escrow that is not PENDING is rejected with the state error
  (class InvalidState), never with a role error (class Forbidden).
\<close>

theorem state_guard_before_role_guard:
  "(\<not> escrowExists escrowId s \<longrightarrow>
      confirmDelivery env escrowId s = Inl EscrowDoesNotExist
      \<and> requestRefund env escrowId s = Inl EscrowDoesNotExist
      \<and> raiseDispute env escrowId s = Inl EscrowDoesNotExist)
   \<and> (escrowExists escrowId s \<and> status (escrows s escrowId) \<noteq> PENDING \<longrightarrow>
      confirmDelivery env escrowId s = Inl EscrowNotPending
      \<and> requestRefund env escrowId s = Inl EscrowNotPending
      \<and> raiseDispute env escrowId s = Inl EscrowNotPending
      \<and> class_of EscrowNotPending = InvalidState
      \<and> class_of EscrowNotPending \<noteq> Forbidden)"
  by (simp add: confirmDelivery_def requestRefund_def raiseDispute_def escrowPending_def)

theorem state_guard_before_role_guard_witness:
  "escrowExists 1 (set_status DELIVERED funded)
   \<and> status (escrows (set_status DELIVERED funded) 1) \<noteq> PENDING
   \<and> msg_sender (env_of carol 2000) \<noteq> buyer (escrows (set_status DELIVERED funded) 1)
   \<and> msg_sender (env_of carol 2000) \<noteq> seller (escrows (set_status DELIVERED funded) 1)
   \<and> confirmDelivery (env_of carol 2000) 1 (set_status DELIVERED funded) = Inl EscrowNotPending
   \<and> requestRefund (env_of carol 2000) 1 (set_status DELIVERED funded) = Inl EscrowNotPending
   \<and> raiseDispute (env_of carol 2000) 1 (set_status DELIVERED funded) = Inl EscrowNotPending
   \<and> \<not> escrowExists 2 funded
   \<and> confirmDelivery (env_of carol 2000) 2 funded = Inl EscrowDoesNotExist"
proof -
  have ex: "escrowExists 1 (set_status DELIVERED funded)"
    by (simp add: sample_defs guard_defs)
  have st: "status (escrows (set_status DELIVERED funded) 1) \<noteq> PENDING"
    by (simp add: sample_defs)
  have who: "msg_sender (env_of carol 2000) \<noteq> buyer (escrows (set_status DELIVERED funded) 1)
     \<and> msg_sender (env_of carol 2000) \<noteq> seller (escrows (set_status DELIVERED funded) 1)"
    by (simp add: sample_defs)
  have nex: "\<not> escrowExists 2 funded"
    by (simp add: sample_defs guard_defs)
  show ?thesis
    using ex st who nex
      state_guard_before_role_guard [of 1 "set_status DELIVERED funded" "env_of carol 2000"]
      state_guard_before_role_guard [of 2 funded "env_of carol 2000"]
    by simp
qed

subsection \<open>Confirming delivery\<close>

lemma settle_after_flag [simp]:
  "can_settle env escrowId (update_escrow escrowId (\<lambda>e. e\<lparr>buyerConfirmed := True\<rparr>) s)
     = can_settle env escrowId s"
  "settle_effects escrowId (update_escrow escrowId (\<lambda>e. e\<lparr>buyerConfirmed := True\<rparr>) s)
     = settle_effects escrowId s"
  "can_settle env escrowId (update_escrow escrowId (\<lambda>e. e\<lparr>sellerConfirmed := True\<rparr>) s)
     = can_settle env escrowId s"
  "settle_effects escrowId (update_escrow escrowId (\<lambda>e. e\<lparr>sellerConfirmed := True\<rparr>) s)
     = settle_effects escrowId s"
  by (simp_all add: can_settle_def settle_effects_def update_escrow_def Let_def)

lemma confirmDelivery_buyer:
  assumes "escrowExists escrowId s" "status (escrows s escrowId) = PENDING"
    "msg_sender env = buyer (escrows s escrowId)"
  shows "confirmDelivery env escrowId s =
    (if can_settle env escrowId s
     then Inr (settled escrowId (update_escrow escrowId (\<lambda>e. e\<lparr>buyerConfirmed := True\<rparr>) s),
               DeliveryConfirmed escrowId (msg_sender env) # settle_effects escrowId s)
     else Inl (case completeEscrow env escrowId
                 (update_escrow escrowId (\<lambda>e. e\<lparr>buyerConfirmed := True\<rparr>) s) of Inl err \<Rightarrow> err | Inr x \<Rightarrow> ArithmeticPanic))"
proof -
  define s1 where "s1 = update_escrow escrowId (\<lambda>e. e\<lparr>buyerConfirmed := True\<rparr>) s"
  have b: "buyerConfirmed (escrows s1 escrowId)" by (simp add: s1_def update_escrow_def)
  have cd: "confirmDelivery env escrowId s =
     (case completeEscrow env escrowId s1 of Inl err \<Rightarrow> Inl err
      | Inr (s2, fx2) \<Rightarrow> Inr (s2, [DeliveryConfirmed escrowId (msg_sender env)] @ fx2))"
  proof -
    have "onlyParticipant env escrowId s" using assms(3) by (simp add: onlyParticipant_def)
    moreover have "escrowPending escrowId s" using assms(2) by (simp add: escrowPending_def)
    ultimately show ?thesis
      using assms(1) b by (simp add: confirmDelivery_def Let_def assms(3) [symmetric] s1_def [symmetric])
  qed
  show ?thesis
  proof (cases "completeEscrow env escrowId s1")
    case (Inl err)
    then have "\<not> can_settle env escrowId s"
      using completeEscrow_Inl_iff [of env escrowId s1] by (auto simp: s1_def)
    then show ?thesis using Inl cd by (simp add: s1_def)
  next
    case (Inr r)
    obtain s2 fx2 where r: "r = (s2, fx2)" by (cases r)
    then show ?thesis
      using Inr cd completeEscrow_iff [of env escrowId s1 s2 fx2] by (simp add: s1_def)
  qed
qed

lemma confirmDelivery_seller:
  assumes "escrowExists escrowId s" "status (escrows s escrowId) = PENDING"
    "msg_sender env = seller (escrows s escrowId)"
    "msg_sender env \<noteq> buyer (escrows s escrowId)"
    "\<not> buyerConfirmed (escrows s escrowId)"
  shows "confirmDelivery env escrowId s =
    Inr (update_escrow escrowId (\<lambda>e. e\<lparr>sellerConfirmed := True\<rparr>) s,
         [DeliveryConfirmed escrowId (msg_sender env)])"
  using assms
  by (simp add: confirmDelivery_def escrowPending_def onlyParticipant_def Let_def
        update_escrow_def)

subsection \<open>Who completes an escrow\<close>

text \<open>
  C1, as the claim has it, fails: the buyer's \<open>confirmDelivery\<close> on a PENDING escrow does
  not always complete it. The settlement pays by \<open>transfer\<close>, and a transfer that fails
  reverts the whole call. On the sample ledger, reached by one \<open>createEscrow\<close>, the
  buyer's call reverts when the seller is an account that rejects a plain transfer, and
  it reverts after the owner's \<open>emergencyWithdraw\<close> has emptied the contract; both times
  the escrow is PENDING afterwards.
\<close>

theorem buyer_confirmation_reverts_when_unpaid:
  "createEscrow (env_of alice 1000) (100 * ether) bob ''first edition'' 7 deployed
     = Inr (1, funded, [EscrowCreated 1 alice bob (100 * ether) ''first edition''])
   \<and> escrowExists 1 funded \<and> status (escrows funded 1) = PENDING
   \<and> msg_sender \<lparr>msg_sender = alice, block_timestamp = 2000, accepts = (\<lambda>a. a \<noteq> bob)\<rparr>
       = buyer (escrows funded 1)
   \<and> confirmDelivery
        \<lparr>msg_sender = alice, block_timestamp = 2000, accepts = (\<lambda>a. a \<noteq> bob)\<rparr> 1 funded
       = Inl TransferFailed
   \<and> status (escrows (step
        \<lparr>msg_sender = alice, block_timestamp = 2000, accepts = (\<lambda>a. a \<noteq> bob)\<rparr>
        (ConfirmDelivery 1) funded) 1) = PENDING
   \<and> exec (env_of carol 2000) EmergencyWithdraw funded
       = Inr (funded\<lparr>balance := 0\<rparr>, [Transfer carol (100 * ether)])
   \<and> escrowExists 1 (funded\<lparr>balance := 0\<rparr>)
   \<and> status (escrows (funded\<lparr>balance := 0\<rparr>) 1) = PENDING
   \<and> msg_sender (env_of alice 3000) = buyer (escrows (funded\<lparr>balance := 0\<rparr>) 1)
   \<and> confirmDelivery (env_of alice 3000) 1 (funded\<lparr>balance := 0\<rparr>) = Inl TransferFailed
   \<and> status (escrows (step (env_of alice 3000) (ConfirmDelivery 1) (funded\<lparr>balance := 0\<rparr>)) 1)
       = PENDING"
proof -
  have rejected: "confirmDelivery
        \<lparr>msg_sender = alice, block_timestamp = 2000, accepts = (\<lambda>a. a \<noteq> bob)\<rparr> 1 funded
       = Inl TransferFailed"
    by (simp add: confirmDelivery_def completeEscrow_def transfer_def checked_mul_def
        checked_sub_def guard_defs sample_defs Let_def)
  have swept: "exec (env_of carol 2000) EmergencyWithdraw funded
       = Inr (funded\<lparr>balance := 0\<rparr>, [Transfer carol (100 * ether)])"
    by (simp add: emergencyWithdraw_def onlyOwner_def transfer_def sample_defs)
  have empty: "confirmDelivery (env_of alice 3000) 1 (funded\<lparr>balance := 0\<rparr>)
      = Inl TransferFailed"
    by (simp add: confirmDelivery_def completeEscrow_def transfer_def checked_mul_def
        checked_sub_def guard_defs sample_defs Let_def)
  have after: "status (escrows (step
        \<lparr>msg_sender = alice, block_timestamp = 2000, accepts = (\<lambda>a. a \<noteq> bob)\<rparr>
        (ConfirmDelivery 1) funded) 1) = PENDING"
    "status (escrows (step (env_of alice 3000) (ConfirmDelivery 1) (funded\<lparr>balance := 0\<rparr>)) 1)
       = PENDING"
    using rejected empty by (simp_all add: step_def) (simp_all add: sample_defs)
  have facts: "escrowExists 1 funded" "status (escrows funded 1) = PENDING"
    "msg_sender \<lparr>msg_sender = alice, block_timestamp = 2000, accepts = (\<lambda>a. a \<noteq> bob)\<rparr>
       = buyer (escrows funded 1)"
    "escrowExists 1 (funded\<lparr>balance := 0\<rparr>)"
    "status (escrows (funded\<lparr>balance := 0\<rparr>) 1) = PENDING"
    "msg_sender (env_of alice 3000) = buyer (escrows (funded\<lparr>balance := 0\<rparr>) 1)"
    by (simp_all add: sample_defs guard_defs)
  show ?thesis using create_sample rejected swept empty after facts by blast
qed

text \<open>
  C1, amended. For an escrow that exists and is PENDING: when the buyer calls
  \<open>confirmDelivery\<close> and the settlement can be paid (\<open>can_settle\<close>: the contract holds
  the amount, the seller and, for a fee above zero, the platform wallet accept a
  transfer, and neither the fee product nor the seller's part leaves \<open>uint256\<close>), the call
  returns, the status is DELIVERED, the buyer's flag is set and the settlement has run,
  its payments being those of the specification; when the settlement cannot be paid the
  call reverts and the storage is as before, the escrow still PENDING. When the seller
  calls alone (the buyer has not confirmed), the call returns with the seller's flag set,
  the status still PENDING and no payment: the escrow is not completed.
\<close>

theorem buyer_alone_completes_seller_alone_does_not:
  assumes "escrowExists escrowId s" and "status (escrows s escrowId) = PENDING"
  shows "(msg_sender env = buyer (escrows s escrowId) \<and> can_settle env escrowId s \<longrightarrow>
           (\<exists>s'. confirmDelivery env escrowId s
                    = Inr (s', DeliveryConfirmed escrowId (msg_sender env)
                                 # settle_effects escrowId s)
              \<and> status (escrows s' escrowId) = DELIVERED
              \<and> buyerConfirmed (escrows s' escrowId)
              \<and> sellerConfirmed (escrows s' escrowId) = sellerConfirmed (escrows s escrowId)
              \<and> balance s' = balance s - amount (escrows s escrowId)
              \<and> transfers_of (settle_effects escrowId s)
                  = spec_settle (platformWallet s) (seller (escrows s escrowId))
                      (unat (amount (escrows s escrowId))) (unat (platformFee s))))
       \<and> (msg_sender env = buyer (escrows s escrowId) \<and> \<not> can_settle env escrowId s \<longrightarrow>
           (\<exists>err. confirmDelivery env escrowId s = Inl err)
           \<and> step env (ConfirmDelivery escrowId) s = s)
       \<and> (msg_sender env = seller (escrows s escrowId)
            \<and> msg_sender env \<noteq> buyer (escrows s escrowId)
            \<and> \<not> buyerConfirmed (escrows s escrowId) \<longrightarrow>
           (\<exists>s'. confirmDelivery env escrowId s
                    = Inr (s', [DeliveryConfirmed escrowId (msg_sender env)])
              \<and> sellerConfirmed (escrows s' escrowId)
              \<and> \<not> buyerConfirmed (escrows s' escrowId)
              \<and> status (escrows s' escrowId) = PENDING
              \<and> balance s' = balance s))"
proof (intro conjI impI)
  assume h: "msg_sender env = buyer (escrows s escrowId) \<and> can_settle env escrowId s"
  show "\<exists>s'. confirmDelivery env escrowId s
                    = Inr (s', DeliveryConfirmed escrowId (msg_sender env)
                                 # settle_effects escrowId s)
              \<and> status (escrows s' escrowId) = DELIVERED
              \<and> buyerConfirmed (escrows s' escrowId)
              \<and> sellerConfirmed (escrows s' escrowId) = sellerConfirmed (escrows s escrowId)
              \<and> balance s' = balance s - amount (escrows s escrowId)
              \<and> transfers_of (settle_effects escrowId s)
                  = spec_settle (platformWallet s) (seller (escrows s escrowId))
                      (unat (amount (escrows s escrowId))) (unat (platformFee s))"
    using confirmDelivery_buyer [OF assms, of env] h
      transfers_of_settle_effects(1) [of env escrowId s]
    by (simp add: settled_def update_escrow_def)
next
  assume "msg_sender env = buyer (escrows s escrowId) \<and> \<not> can_settle env escrowId s"
  then show "\<exists>err. confirmDelivery env escrowId s = Inl err"
    using confirmDelivery_buyer [OF assms, of env] by simp
  then show "step env (ConfirmDelivery escrowId) s = s"
    by (auto simp: step_def)
next
  assume h: "msg_sender env = seller (escrows s escrowId)
            \<and> msg_sender env \<noteq> buyer (escrows s escrowId)
            \<and> \<not> buyerConfirmed (escrows s escrowId)"
  show "\<exists>s'. confirmDelivery env escrowId s
                    = Inr (s', [DeliveryConfirmed escrowId (msg_sender env)])
              \<and> sellerConfirmed (escrows s' escrowId)
              \<and> \<not> buyerConfirmed (escrows s' escrowId)
              \<and> status (escrows s' escrowId) = PENDING
              \<and> balance s' = balance s"
    using confirmDelivery_seller [OF assms, of env] h assms(2)
    by (auto simp: update_escrow_def)
qed

lemma sample_can_settle: "can_settle (env_of who now) 1 funded"
  by (simp add: can_settle_def sample_defs Let_def)

lemma sample_settle_effects:
  "settle_effects 1 funded =
     [Transfer treasury (25 * 10 ^ 17), Transfer bob (975 * 10 ^ 17),
      EscrowCompleted 1 (975 * 10 ^ 17) (25 * 10 ^ 17)]"
  by (simp add: settle_effects_def sample_defs Let_def)

theorem buyer_alone_completes_seller_alone_does_not_witness:
  "escrowExists 1 funded \<and> status (escrows funded 1) = PENDING
   \<and> msg_sender (env_of alice 2000) = buyer (escrows funded 1)
   \<and> can_settle (env_of alice 2000) 1 funded
   \<and> (\<exists>s'. confirmDelivery (env_of alice 2000) 1 funded
             = Inr (s', [DeliveryConfirmed 1 alice, Transfer treasury (25 * 10 ^ 17),
                         Transfer bob (975 * 10 ^ 17),
                         EscrowCompleted 1 (975 * 10 ^ 17) (25 * 10 ^ 17)])
           \<and> status (escrows s' 1) = DELIVERED)
   \<and> msg_sender (env_of bob 2000) = seller (escrows funded 1)
   \<and> msg_sender (env_of bob 2000) \<noteq> buyer (escrows funded 1)
   \<and> \<not> buyerConfirmed (escrows funded 1)
   \<and> (\<exists>s'. confirmDelivery (env_of bob 2000) 1 funded = Inr (s', [DeliveryConfirmed 1 bob])
           \<and> sellerConfirmed (escrows s' 1) \<and> status (escrows s' 1) = PENDING
           \<and> balance s' = balance funded)
   \<and> escrowExists 1 (funded\<lparr>balance := 0\<rparr>)
   \<and> status (escrows (funded\<lparr>balance := 0\<rparr>) 1) = PENDING
   \<and> msg_sender (env_of alice 2000) = buyer (escrows (funded\<lparr>balance := 0\<rparr>) 1)
   \<and> \<not> can_settle (env_of alice 2000) 1 (funded\<lparr>balance := 0\<rparr>)
   \<and> (\<exists>err. confirmDelivery (env_of alice 2000) 1 (funded\<lparr>balance := 0\<rparr>) = Inl err)
   \<and> step (env_of alice 2000) (ConfirmDelivery 1) (funded\<lparr>balance := 0\<rparr>)
       = funded\<lparr>balance := 0\<rparr>"
proof -
  have ex: "escrowExists 1 funded" and st: "status (escrows funded 1) = PENDING"
    by (simp_all add: sample_defs guard_defs)
  have who: "msg_sender (env_of alice 2000) = buyer (escrows funded 1)"
    "msg_sender (env_of bob 2000) = seller (escrows funded 1)"
    "msg_sender (env_of bob 2000) \<noteq> buyer (escrows funded 1)"
    "\<not> buyerConfirmed (escrows funded 1)"
    "msg_sender (env_of alice 2000) = alice" "msg_sender (env_of bob 2000) = bob"
    by (simp_all add: sample_defs)
  note inst = buyer_alone_completes_seller_alone_does_not [OF ex st]
  have paid: "(\<exists>s'. confirmDelivery (env_of alice 2000) 1 funded
             = Inr (s', [DeliveryConfirmed 1 alice, Transfer treasury (25 * 10 ^ 17),
                         Transfer bob (975 * 10 ^ 17),
                         EscrowCompleted 1 (975 * 10 ^ 17) (25 * 10 ^ 17)])
           \<and> status (escrows s' 1) = DELIVERED)
     \<and> (\<exists>s'. confirmDelivery (env_of bob 2000) 1 funded = Inr (s', [DeliveryConfirmed 1 bob])
           \<and> sellerConfirmed (escrows s' 1) \<and> status (escrows s' 1) = PENDING
           \<and> balance s' = balance funded)"
    using who sample_can_settle [of alice 2000] inst [of "env_of alice 2000"]
      inst [of "env_of bob 2000"]
    by (simp add: sample_settle_effects) blast
  have ex0: "escrowExists 1 (funded\<lparr>balance := 0\<rparr>)"
    and st0: "status (escrows (funded\<lparr>balance := 0\<rparr>) 1) = PENDING"
    and who0: "msg_sender (env_of alice 2000) = buyer (escrows (funded\<lparr>balance := 0\<rparr>) 1)"
    and no: "\<not> can_settle (env_of alice 2000) 1 (funded\<lparr>balance := 0\<rparr>)"
    by (simp_all add: sample_defs guard_defs can_settle_def Let_def)
  have unpaid: "(\<exists>err. confirmDelivery (env_of alice 2000) 1 (funded\<lparr>balance := 0\<rparr>) = Inl err)
     \<and> step (env_of alice 2000) (ConfirmDelivery 1) (funded\<lparr>balance := 0\<rparr>)
         = funded\<lparr>balance := 0\<rparr>"
    using buyer_alone_completes_seller_alone_does_not
      [OF ex0 st0, of "env_of alice 2000", THEN conjunct2, THEN conjunct1] who0 no
    by blast
  show ?thesis using ex st who(1-4) sample_can_settle [of alice 2000] paid ex0 st0 who0 no unpaid
    by blast
qed

subsection \<open>The fee split\<close>

lemma confirmDelivery_delivered:
  assumes "confirmDelivery env escrowId s = Inr (s', fx)"
    and "status (escrows s' escrowId) = DELIVERED"
  shows "can_settle env escrowId s
    \<and> fx = DeliveryConfirmed escrowId (msg_sender env) # settle_effects escrowId s"
proof -
  define s1 where "s1 = (if msg_sender env = buyer (escrows s escrowId)
      then update_escrow escrowId (\<lambda>e. e\<lparr>buyerConfirmed := True\<rparr>) s
      else update_escrow escrowId (\<lambda>e. e\<lparr>sellerConfirmed := True\<rparr>) s)"
  have same: "can_settle env escrowId s1 = can_settle env escrowId s"
    "settle_effects escrowId s1 = settle_effects escrowId s"
    by (simp_all add: s1_def)
  have guards: "escrowExists escrowId s" "escrowPending escrowId s"
    "onlyParticipant env escrowId s"
    using assms(1) by (auto simp: confirmDelivery_def split: if_splits)
  then have pend: "status (escrows s1 escrowId) = PENDING"
    by (simp add: s1_def escrowPending_def update_escrow_def)
  have cd: "confirmDelivery env escrowId s =
     (if buyerConfirmed (escrows s1 escrowId)
      then (case completeEscrow env escrowId s1 of Inl err \<Rightarrow> Inl err
            | Inr (s2, fx2) \<Rightarrow> Inr (s2, [DeliveryConfirmed escrowId (msg_sender env)] @ fx2))
      else Inr (s1, [DeliveryConfirmed escrowId (msg_sender env)]))"
    unfolding confirmDelivery_def Let_def s1_def [symmetric] using guards by simp
  show ?thesis
  proof (cases "buyerConfirmed (escrows s1 escrowId)")
    case True
    then obtain fx2 where "completeEscrow env escrowId s1 = Inr (s', fx2)"
      "fx = DeliveryConfirmed escrowId (msg_sender env) # fx2"
      using assms(1) cd by (auto split: sum.splits prod.splits)
    then show ?thesis using completeEscrow_iff [of env escrowId s1 s' fx2] same by simp
  next
    case False
    then have "s' = s1" using assms(1) cd by simp
    then show ?thesis using pend assms(2) by simp
  qed
qed

lemma resolveDispute_Inr_iff:
  "resolveDispute env escrowId refundToBuyer s = Inr (s', fx) \<longleftrightarrow>
     msg_sender env = owner s \<and> escrowExists escrowId s
     \<and> status (escrows s escrowId) = DISPUTED
     \<and> (if refundToBuyer
        then can_refund env escrowId s \<and> s' = refunded escrowId s
             \<and> fx = refund_effects escrowId s
        else can_settle env escrowId s \<and> s' = settled escrowId s
             \<and> fx = settle_effects escrowId s)"
proof (cases "msg_sender env = owner s \<and> escrowExists escrowId s
     \<and> status (escrows s escrowId) = DISPUTED")
  case False
  then show ?thesis by (auto simp: resolveDispute_def onlyOwner_def)
next
  case guards: True
  show ?thesis
  proof (cases refundToBuyer)
    case False
    then show ?thesis
      using guards completeEscrow_iff [of env escrowId s s' fx]
      by (simp add: resolveDispute_def onlyOwner_def)
  next
    case True
    define s1 where "s1 = update_escrow escrowId (\<lambda>e. e\<lparr>status := REFUNDED\<rparr>) s"
    have e1: "buyer (escrows s1 escrowId) = buyer (escrows s escrowId)"
      "amount (escrows s1 escrowId) = amount (escrows s escrowId)"
      by (simp_all add: s1_def update_escrow_def)
    have am: "amount (escrows (refunded escrowId s) escrowId) = amount (escrows s escrowId)"
      by (simp add: refunded_def update_escrow_def)
    have "resolveDispute env escrowId refundToBuyer s =
       (case transfer env (buyer (escrows s escrowId)) (amount (escrows s escrowId)) s1 of
          Inl err \<Rightarrow> Inl err
        | Inr (s2, fx2) \<Rightarrow> Inr (s2, fx2 @ [EscrowRefunded escrowId (amount (escrows s2 escrowId))]))"
      using guards True by (simp add: resolveDispute_def onlyOwner_def Let_def s1_def [symmetric] e1)
    then show ?thesis
      using guards True refund_transfer_iff [of env s escrowId] am
      by (auto simp: s1_def refund_effects_def split: sum.splits prod.splits)
  qed
qed

text \<open>
  C3. Whenever an escrow completes, by a \<open>confirmDelivery\<close> that leaves it DELIVERED or by
  the owner resolving a dispute for the seller, the payments of the call are those of the
  specification's settlement on the stored amount and the current fee rate: the fee is
  \<open>amount * platformFee div 10000\<close> in unbounded arithmetic, the seller's part is the
  amount less the fee, the two add up to the amount, and the fee payment is left out
  exactly when the fee is zero. The event carries the same two numbers.
\<close>

theorem completion_splits_fee_as_specified:
  assumes "(confirmDelivery env escrowId s = Inr (s', fx)
              \<and> status (escrows s' escrowId) = DELIVERED)
           \<or> resolveDispute env escrowId False s = Inr (s', fx)"
    and "amt = unat (amount (escrows s escrowId))" and "bps = unat (platformFee s)"
    and "fee = spec_feeAmount amt bps"
  shows "fee = amt * bps div 10000
     \<and> fee + spec_sellerAmount amt bps = amt
     \<and> spec_sellerAmount amt bps = amt - fee
     \<and> transfers_of fx = spec_settle (platformWallet s) (seller (escrows s escrowId)) amt bps
     \<and> transfers_of fx =
         (if fee = 0 then [(seller (escrows s escrowId), amt - fee)]
          else [(platformWallet s, fee), (seller (escrows s escrowId), amt - fee)])
     \<and> last fx = EscrowCompleted escrowId (word_of_nat (amt - fee)) (word_of_nat fee)"
proof -
  have "can_settle env escrowId s \<and> transfers_of fx = transfers_of (settle_effects escrowId s)
     \<and> last fx = last (settle_effects escrowId s)"
    using assms(1)
  proof
    assume "confirmDelivery env escrowId s = Inr (s', fx)
              \<and> status (escrows s' escrowId) = DELIVERED"
    then show ?thesis
      using confirmDelivery_delivered [of env escrowId s s' fx]
      by (simp add: settle_effects_def Let_def)
  next
    assume "resolveDispute env escrowId False s = Inr (s', fx)"
    then show ?thesis by (simp add: resolveDispute_Inr_iff)
  qed
  then have cs: "can_settle env escrowId s"
    and tr: "transfers_of fx = transfers_of (settle_effects escrowId s)"
    and la: "last fx = last (settle_effects escrowId s)" by simp_all
  note facts = transfers_of_settle_effects [OF cs]
  have sum: "fee + spec_sellerAmount amt bps = amt"
    using facts(2) assms(2-4) by simp
  have "word_of_nat fee = amount (escrows s escrowId) * platformFee s div 10000"
    "word_of_nat (amt - fee)
       = amount (escrows s escrowId) - amount (escrows s escrowId) * platformFee s div 10000"
    using facts(3) [symmetric] facts(4) [symmetric] assms(2-4)
    by (simp_all add: spec_sellerAmount_def)
  then have la': "last (settle_effects escrowId s)
      = EscrowCompleted escrowId (word_of_nat (amt - fee)) (word_of_nat fee)"
    by (simp add: settle_effects_def Let_def)
  show ?thesis
    using sum tr la la' facts(1) assms(2-4)
    by (simp add: spec_settle_def spec_sellerAmount_def spec_feeAmount_def)
qed

lemma confirm_sample:
  "confirmDelivery (env_of alice 2000) 1 funded =
     Inr (settled 1 (update_escrow 1 (\<lambda>e. e\<lparr>buyerConfirmed := True\<rparr>) funded),
          [DeliveryConfirmed 1 alice, Transfer treasury (25 * 10 ^ 17),
           Transfer bob (975 * 10 ^ 17), EscrowCompleted 1 (975 * 10 ^ 17) (25 * 10 ^ 17)])"
proof -
  have "escrowExists 1 funded" "status (escrows funded 1) = PENDING"
    "msg_sender (env_of alice 2000) = buyer (escrows funded 1)"
    by (simp_all add: sample_defs guard_defs)
  from confirmDelivery_buyer [OF this] show ?thesis
    by (simp add: sample_can_settle sample_settle_effects) (simp add: sample_defs)
qed

theorem completion_splits_fee_as_specified_witness:
  "confirmDelivery (env_of alice 2000) 1 funded =
     Inr (settled 1 (update_escrow 1 (\<lambda>e. e\<lparr>buyerConfirmed := True\<rparr>) funded),
          [DeliveryConfirmed 1 alice, Transfer treasury (25 * 10 ^ 17),
           Transfer bob (975 * 10 ^ 17), EscrowCompleted 1 (975 * 10 ^ 17) (25 * 10 ^ 17)])
   \<and> status (escrows (settled 1 (update_escrow 1 (\<lambda>e. e\<lparr>buyerConfirmed := True\<rparr>) funded)) 1)
       = DELIVERED
   \<and> unat (amount (escrows funded 1)) = 10 ^ 20 \<and> unat (platformFee funded) = 250
   \<and> spec_feeAmount (10 ^ 20) 250 = 25 * 10 ^ 17
   \<and> spec_sellerAmount (10 ^ 20) 250 = 975 * 10 ^ 17
   \<and> spec_settle (platformWallet funded) (seller (escrows funded 1)) (10 ^ 20) 250
       = [(treasury, 25 * 10 ^ 17), (bob, 975 * 10 ^ 17)]"
proof -
  have st: "status (escrows (settled 1 (update_escrow 1 (\<lambda>e. e\<lparr>buyerConfirmed := True\<rparr>) funded)) 1)
       = DELIVERED"
    by (simp add: settled_def update_escrow_def)
  have amt: "10 ^ 20 = unat (amount (escrows funded 1))" and bps: "250 = unat (platformFee funded)"
    by (simp_all add: sample_defs)
  have fee: "25 * 10 ^ 17 = spec_feeAmount (10 ^ 20) 250"
    by (simp add: spec_feeAmount_def)
  have "transfers_of [DeliveryConfirmed 1 alice, Transfer treasury (25 * 10 ^ 17),
           Transfer bob (975 * 10 ^ 17), EscrowCompleted 1 (975 * 10 ^ 17) (25 * 10 ^ 17)]
     = [(treasury, 25 * 10 ^ 17), (bob, 975 * 10 ^ 17)]"
    by simp
  then show ?thesis
    using completion_splits_fee_as_specified
      [OF disjI1 [OF conjI [OF confirm_sample st]] amt bps fee] confirm_sample st amt bps fee
    by simp
qed

subsection \<open>Refunds\<close>

lemma requestRefund_Inr_iff:
  "requestRefund env escrowId s = Inr (s', fx) \<longleftrightarrow>
     escrowExists escrowId s \<and> status (escrows s escrowId) = PENDING
     \<and> msg_sender env = buyer (escrows s escrowId)
     \<and> block_timestamp env > deliveryDeadline (escrows s escrowId)
     \<and> can_refund env escrowId s \<and> s' = refunded escrowId s \<and> fx = refund_effects escrowId s"
proof (cases "escrowExists escrowId s \<and> status (escrows s escrowId) = PENDING
     \<and> msg_sender env = buyer (escrows s escrowId)
     \<and> block_timestamp env > deliveryDeadline (escrows s escrowId)")
  case False
  then show ?thesis by (auto simp: requestRefund_def escrowPending_def onlyBuyer_def)
next
  case guards: True
  define s1 where "s1 = update_escrow escrowId (\<lambda>e. e\<lparr>status := REFUNDED\<rparr>) s"
  have e1: "buyer (escrows s1 escrowId) = buyer (escrows s escrowId)"
    "amount (escrows s1 escrowId) = amount (escrows s escrowId)"
    by (simp_all add: s1_def update_escrow_def)
  have "requestRefund env escrowId s =
     (case transfer env (buyer (escrows s escrowId)) (amount (escrows s escrowId)) s1 of
        Inl err \<Rightarrow> Inl err
      | Inr (s2, fx2) \<Rightarrow> Inr (s2, fx2 @ [EscrowRefunded escrowId (amount (escrows s escrowId))]))"
    unfolding requestRefund_def Let_def s1_def [symmetric] e1
    using guards by (simp add: escrowPending_def onlyBuyer_def)
  then show ?thesis
    using guards refund_transfer_iff [of env s escrowId]
    by (auto simp: s1_def refund_effects_def split: sum.splits prod.splits)
qed

text \<open>
  C7, as the claim has it, fails: after the deadline the buyer's \<open>requestRefund\<close> on a
  PENDING escrow does not always succeed. The refund pays by \<open>transfer\<close>, and a transfer
  that fails reverts the whole call. On the sample ledger, reached by one
  \<open>createEscrow\<close>, the buyer's call after the deadline reverts when the buyer is an
  account that rejects a plain transfer, and it reverts after the owner's
  \<open>emergencyWithdraw\<close> has emptied the contract; both times the escrow is PENDING
  afterwards and nothing has been paid.
\<close>

theorem buyer_refund_reverts_when_unpaid:
  "createEscrow (env_of alice 1000) (100 * ether) bob ''first edition'' 7 deployed
     = Inr (1, funded, [EscrowCreated 1 alice bob (100 * ether) ''first edition''])
   \<and> escrowExists 1 funded \<and> status (escrows funded 1) = PENDING
   \<and> msg_sender \<lparr>msg_sender = alice, block_timestamp = 605801, accepts = (\<lambda>a. a \<noteq> alice)\<rparr>
       = buyer (escrows funded 1)
   \<and> block_timestamp
        \<lparr>msg_sender = alice, block_timestamp = 605801, accepts = (\<lambda>a. a \<noteq> alice)\<rparr>
       > deliveryDeadline (escrows funded 1)
   \<and> requestRefund
        \<lparr>msg_sender = alice, block_timestamp = 605801, accepts = (\<lambda>a. a \<noteq> alice)\<rparr> 1 funded
       = Inl TransferFailed
   \<and> status (escrows (step
        \<lparr>msg_sender = alice, block_timestamp = 605801, accepts = (\<lambda>a. a \<noteq> alice)\<rparr>
        (RequestRefund 1) funded) 1) = PENDING
   \<and> exec (env_of carol 2000) EmergencyWithdraw funded
       = Inr (funded\<lparr>balance := 0\<rparr>, [Transfer carol (100 * ether)])
   \<and> escrowExists 1 (funded\<lparr>balance := 0\<rparr>)
   \<and> status (escrows (funded\<lparr>balance := 0\<rparr>) 1) = PENDING
   \<and> msg_sender (env_of alice 605801) = buyer (escrows (funded\<lparr>balance := 0\<rparr>) 1)
   \<and> block_timestamp (env_of alice 605801)
       > deliveryDeadline (escrows (funded\<lparr>balance := 0\<rparr>) 1)
   \<and> requestRefund (env_of alice 605801) 1 (funded\<lparr>balance := 0\<rparr>) = Inl TransferFailed
   \<and> status (escrows (step (env_of alice 605801) (RequestRefund 1) (funded\<lparr>balance := 0\<rparr>)) 1)
       = PENDING"
proof -
  have rejected: "requestRefund
        \<lparr>msg_sender = alice, block_timestamp = 605801, accepts = (\<lambda>a. a \<noteq> alice)\<rparr> 1 funded
       = Inl TransferFailed"
    by (simp add: requestRefund_def transfer_def guard_defs sample_defs Let_def)
  have swept: "exec (env_of carol 2000) EmergencyWithdraw funded
       = Inr (funded\<lparr>balance := 0\<rparr>, [Transfer carol (100 * ether)])"
    by (simp add: emergencyWithdraw_def onlyOwner_def transfer_def sample_defs)
  have empty: "requestRefund (env_of alice 605801) 1 (funded\<lparr>balance := 0\<rparr>)
      = Inl TransferFailed"
    by (simp add: requestRefund_def transfer_def guard_defs sample_defs Let_def)
  have after: "status (escrows (step
        \<lparr>msg_sender = alice, block_timestamp = 605801, accepts = (\<lambda>a. a \<noteq> alice)\<rparr>
        (RequestRefund 1) funded) 1) = PENDING"
    "status (escrows (step (env_of alice 605801) (RequestRefund 1) (funded\<lparr>balance := 0\<rparr>)) 1)
       = PENDING"
    using rejected empty by (simp_all add: step_def) (simp_all add: sample_defs)
  have facts: "escrowExists 1 funded" "status (escrows funded 1) = PENDING"
    "msg_sender \<lparr>msg_sender = alice, block_timestamp = 605801, accepts = (\<lambda>a. a \<noteq> alice)\<rparr>
       = buyer (escrows funded 1)"
    "block_timestamp
        \<lparr>msg_sender = alice, block_timestamp = 605801, accepts = (\<lambda>a. a \<noteq> alice)\<rparr>
       > deliveryDeadline (escrows funded 1)"
    "escrowExists 1 (funded\<lparr>balance := 0\<rparr>)"
    "status (escrows (funded\<lparr>balance := 0\<rparr>) 1) = PENDING"
    "msg_sender (env_of alice 605801) = buyer (escrows (funded\<lparr>balance := 0\<rparr>) 1)"
    "block_timestamp (env_of alice 605801)
       > deliveryDeadline (escrows (funded\<lparr>balance := 0\<rparr>) 1)"
    by (simp_all add: sample_defs guard_defs)
  show ?thesis using create_sample rejected swept empty after facts by blast
qed

text \<open>
  C7, amended. For an escrow that exists and is PENDING: a caller other than the buyer is
  rejected by the buyer guard (class Forbidden); the buyer is rejected with the deadline
  error (class TooEarly) whenever the time of the call is not after the delivery
  deadline; and whenever it is after the deadline and the refund can be paid
  (\<open>can_refund\<close>: the contract holds the amount and the buyer accepts a transfer) the call
  returns, the status is REFUNDED, and the one payment of the call is the whole amount to
  the buyer, no fee taken. When it is after the deadline and the refund cannot be paid,
  the transfer reverts the call and the storage is as before, the escrow still PENDING.
\<close>

theorem requestRefund_after_deadline_only:
  assumes "escrowExists escrowId s" and "status (escrows s escrowId) = PENDING"
  shows "(msg_sender env \<noteq> buyer (escrows s escrowId) \<longrightarrow>
            requestRefund env escrowId s = Inl OnlyBuyer \<and> class_of OnlyBuyer = Forbidden)
     \<and> (msg_sender env = buyer (escrows s escrowId)
          \<and> \<not> block_timestamp env > deliveryDeadline (escrows s escrowId) \<longrightarrow>
            requestRefund env escrowId s = Inl RefundBeforeDeadline
            \<and> class_of RefundBeforeDeadline = TooEarly)
     \<and> (msg_sender env = buyer (escrows s escrowId)
          \<and> block_timestamp env > deliveryDeadline (escrows s escrowId)
          \<and> can_refund env escrowId s \<longrightarrow>
            (\<exists>s'. requestRefund env escrowId s
                     = Inr (s', [Transfer (buyer (escrows s escrowId)) (amount (escrows s escrowId)),
                                 EscrowRefunded escrowId (amount (escrows s escrowId))])
               \<and> status (escrows s' escrowId) = REFUNDED
               \<and> balance s' = balance s - amount (escrows s escrowId)
               \<and> transfers_of [Transfer (buyer (escrows s escrowId)) (amount (escrows s escrowId)),
                                 EscrowRefunded escrowId (amount (escrows s escrowId))]
                   = [(buyer (escrows s escrowId), unat (amount (escrows s escrowId)))]))
     \<and> (msg_sender env = buyer (escrows s escrowId)
          \<and> block_timestamp env > deliveryDeadline (escrows s escrowId)
          \<and> \<not> can_refund env escrowId s \<longrightarrow>
            requestRefund env escrowId s = Inl TransferFailed
            \<and> step env (RequestRefund escrowId) s = s)"
proof (intro conjI impI)
  assume "msg_sender env = buyer (escrows s escrowId)
          \<and> block_timestamp env > deliveryDeadline (escrows s escrowId)
          \<and> \<not> can_refund env escrowId s"
  then show "requestRefund env escrowId s = Inl TransferFailed"
    using assms
    by (auto simp: requestRefund_def escrowPending_def onlyBuyer_def Let_def transfer_def
        can_refund_def update_escrow_def not_less)
  then show "step env (RequestRefund escrowId) s = s"
    by (simp add: step_def)
next
  assume "msg_sender env \<noteq> buyer (escrows s escrowId)"
  then show "requestRefund env escrowId s = Inl OnlyBuyer"
    using assms by (simp add: requestRefund_def escrowPending_def onlyBuyer_def)
next
  assume "msg_sender env = buyer (escrows s escrowId)
          \<and> \<not> block_timestamp env > deliveryDeadline (escrows s escrowId)"
  then show "requestRefund env escrowId s = Inl RefundBeforeDeadline"
    using assms by (simp add: requestRefund_def escrowPending_def onlyBuyer_def)
next
  assume "msg_sender env = buyer (escrows s escrowId)
          \<and> block_timestamp env > deliveryDeadline (escrows s escrowId)
          \<and> can_refund env escrowId s"
  then have "requestRefund env escrowId s = Inr (refunded escrowId s, refund_effects escrowId s)"
    using assms by (simp add: requestRefund_Inr_iff)
  then show "\<exists>s'. requestRefund env escrowId s
                     = Inr (s', [Transfer (buyer (escrows s escrowId)) (amount (escrows s escrowId)),
                                 EscrowRefunded escrowId (amount (escrows s escrowId))])
               \<and> status (escrows s' escrowId) = REFUNDED
               \<and> balance s' = balance s - amount (escrows s escrowId)
               \<and> transfers_of [Transfer (buyer (escrows s escrowId)) (amount (escrows s escrowId)),
                                 EscrowRefunded escrowId (amount (escrows s escrowId))]
                   = [(buyer (escrows s escrowId), unat (amount (escrows s escrowId)))]"
    by (simp add: refund_effects_def refunded_def update_escrow_def)
qed simp_all

theorem requestRefund_after_deadline_only_witness:
  "escrowExists 1 funded \<and> status (escrows funded 1) = PENDING
   \<and> deliveryDeadline (escrows funded 1) = 605800
   \<and> msg_sender (env_of bob 700000) \<noteq> buyer (escrows funded 1)
   \<and> requestRefund (env_of bob 700000) 1 funded = Inl OnlyBuyer
   \<and> msg_sender (env_of alice 605800) = buyer (escrows funded 1)
   \<and> \<not> block_timestamp (env_of alice 605800) > deliveryDeadline (escrows funded 1)
   \<and> requestRefund (env_of alice 605800) 1 funded = Inl RefundBeforeDeadline
   \<and> block_timestamp (env_of alice 605801) > deliveryDeadline (escrows funded 1)
   \<and> can_refund (env_of alice 605801) 1 funded
   \<and> (\<exists>s'. requestRefund (env_of alice 605801) 1 funded
             = Inr (s', [Transfer alice (100 * ether), EscrowRefunded 1 (100 * ether)])
           \<and> status (escrows s' 1) = REFUNDED \<and> balance s' = 0)
   \<and> escrowExists 1 (funded\<lparr>balance := 0\<rparr>)
   \<and> status (escrows (funded\<lparr>balance := 0\<rparr>) 1) = PENDING
   \<and> \<not> can_refund (env_of alice 605801) 1 (funded\<lparr>balance := 0\<rparr>)
   \<and> requestRefund (env_of alice 605801) 1 (funded\<lparr>balance := 0\<rparr>) = Inl TransferFailed
   \<and> step (env_of alice 605801) (RequestRefund 1) (funded\<lparr>balance := 0\<rparr>)
       = funded\<lparr>balance := 0\<rparr>"
proof -
  have ex: "escrowExists 1 funded" and st: "status (escrows funded 1) = PENDING"
    by (simp_all add: sample_defs guard_defs)
  have ex0: "escrowExists 1 (funded\<lparr>balance := 0\<rparr>)"
    and st0: "status (escrows (funded\<lparr>balance := 0\<rparr>) 1) = PENDING"
    and env0: "msg_sender (env_of alice 605801) = buyer (escrows (funded\<lparr>balance := 0\<rparr>) 1)"
      "block_timestamp (env_of alice 605801)
         > deliveryDeadline (escrows (funded\<lparr>balance := 0\<rparr>) 1)"
      "\<not> can_refund (env_of alice 605801) 1 (funded\<lparr>balance := 0\<rparr>)"
    by (simp_all add: sample_defs guard_defs can_refund_def)
  have unpaid: "requestRefund (env_of alice 605801) 1 (funded\<lparr>balance := 0\<rparr>)
      = Inl TransferFailed
     \<and> step (env_of alice 605801) (RequestRefund 1) (funded\<lparr>balance := 0\<rparr>)
         = funded\<lparr>balance := 0\<rparr>"
    using requestRefund_after_deadline_only [OF ex0 st0, of "env_of alice 605801",
        THEN conjunct2, THEN conjunct2, THEN conjunct2] env0
    by blast
  have env: "deliveryDeadline (escrows funded 1) = 605800"
    "msg_sender (env_of bob 700000) \<noteq> buyer (escrows funded 1)"
    "msg_sender (env_of alice 605800) = buyer (escrows funded 1)"
    "msg_sender (env_of alice 605801) = buyer (escrows funded 1)"
    "\<not> block_timestamp (env_of alice 605800) > deliveryDeadline (escrows funded 1)"
    "block_timestamp (env_of alice 605801) > deliveryDeadline (escrows funded 1)"
    "can_refund (env_of alice 605801) 1 funded"
    "buyer (escrows funded 1) = alice" "amount (escrows funded 1) = 100 * ether"
    "balance funded = 100 * ether"
    by (simp_all add: sample_defs can_refund_def)
  note inst = requestRefund_after_deadline_only [OF ex st]
  have paid: "requestRefund (env_of bob 700000) 1 funded = Inl OnlyBuyer
     \<and> requestRefund (env_of alice 605800) 1 funded = Inl RefundBeforeDeadline
     \<and> (\<exists>s'. requestRefund (env_of alice 605801) 1 funded
             = Inr (s', [Transfer alice (100 * ether), EscrowRefunded 1 (100 * ether)])
           \<and> status (escrows s' 1) = REFUNDED \<and> balance s' = 0)"
    using env inst [of "env_of bob 700000"] inst [of "env_of alice 605800"]
      inst [of "env_of alice 605801"]
    by simp
  show ?thesis using ex st env(1-3,5-7) paid ex0 st0 env0(3) unpaid by blast
qed

subsection \<open>Resolving a dispute\<close>

text \<open>
  C8. \<open>resolveDispute\<close> returns only when the caller is the owner and the escrow exists
  and is DISPUTED. Any other caller is rejected by the owner guard (class Forbidden); the
  owner calling it on an existing escrow in another status (PENDING, DELIVERED, REFUNDED)
  is rejected with the state error (class InvalidState). When it returns with
  \<open>refundToBuyer\<close>, the escrow is REFUNDED and the one payment is the whole amount to
  the buyer; when it returns without, the escrow is DELIVERED and the payments are the
  fee split of the settlement. It does return whenever the guards pass and the payout
  can be paid.
\<close>

theorem resolveDispute_owner_from_disputed:
  "(msg_sender env \<noteq> owner s \<longrightarrow>
      resolveDispute env escrowId refundToBuyer s = Inl OnlyOwner
      \<and> class_of OnlyOwner = Forbidden)
   \<and> (msg_sender env = owner s \<and> escrowExists escrowId s
        \<and> status (escrows s escrowId) \<noteq> DISPUTED \<longrightarrow>
      resolveDispute env escrowId refundToBuyer s = Inl EscrowNotDisputed
      \<and> class_of EscrowNotDisputed = InvalidState)
   \<and> (resolveDispute env escrowId refundToBuyer s = Inr (s', fx) \<longrightarrow>
      msg_sender env = owner s \<and> escrowExists escrowId s
      \<and> status (escrows s escrowId) = DISPUTED
      \<and> (if refundToBuyer
         then status (escrows s' escrowId) = REFUNDED
              \<and> transfers_of fx
                  = [(buyer (escrows s escrowId), unat (amount (escrows s escrowId)))]
         else status (escrows s' escrowId) = DELIVERED
              \<and> transfers_of fx
                  = spec_settle (platformWallet s) (seller (escrows s escrowId))
                      (unat (amount (escrows s escrowId))) (unat (platformFee s))))
   \<and> (msg_sender env = owner s \<and> escrowExists escrowId s
        \<and> status (escrows s escrowId) = DISPUTED
        \<and> (if refundToBuyer then can_refund env escrowId s else can_settle env escrowId s)
      \<longrightarrow> resolveDispute env escrowId refundToBuyer s
            = Inr (if refundToBuyer then (refunded escrowId s, refund_effects escrowId s)
                   else (settled escrowId s, settle_effects escrowId s)))"
proof (intro conjI impI)
  assume "msg_sender env \<noteq> owner s"
  then show "resolveDispute env escrowId refundToBuyer s = Inl OnlyOwner"
    by (simp add: resolveDispute_def onlyOwner_def)
next
  assume "msg_sender env = owner s \<and> escrowExists escrowId s
        \<and> status (escrows s escrowId) \<noteq> DISPUTED"
  then show "resolveDispute env escrowId refundToBuyer s = Inl EscrowNotDisputed"
    by (simp add: resolveDispute_def onlyOwner_def)
next
  assume r: "resolveDispute env escrowId refundToBuyer s = Inr (s', fx)"
  then show "msg_sender env = owner s" "escrowExists escrowId s"
    "status (escrows s escrowId) = DISPUTED"
    by (simp_all add: resolveDispute_Inr_iff)
  show "if refundToBuyer
         then status (escrows s' escrowId) = REFUNDED
              \<and> transfers_of fx
                  = [(buyer (escrows s escrowId), unat (amount (escrows s escrowId)))]
         else status (escrows s' escrowId) = DELIVERED
              \<and> transfers_of fx
                  = spec_settle (platformWallet s) (seller (escrows s escrowId))
                      (unat (amount (escrows s escrowId))) (unat (platformFee s))"
  proof (cases refundToBuyer)
    case True
    then show ?thesis
      using r
      by (simp add: resolveDispute_Inr_iff refunded_def refund_effects_def update_escrow_def)
  next
    case False
    then have "can_settle env escrowId s" "s' = settled escrowId s"
      "fx = settle_effects escrowId s"
      using r by (simp_all add: resolveDispute_Inr_iff)
    then show ?thesis
      using False transfers_of_settle_effects(1) [of env escrowId s]
      by (simp add: settled_def update_escrow_def)
  qed
next
  assume "msg_sender env = owner s \<and> escrowExists escrowId s
        \<and> status (escrows s escrowId) = DISPUTED
        \<and> (if refundToBuyer then can_refund env escrowId s else can_settle env escrowId s)"
  then show "resolveDispute env escrowId refundToBuyer s
            = Inr (if refundToBuyer then (refunded escrowId s, refund_effects escrowId s)
                   else (settled escrowId s, settle_effects escrowId s))"
    by (simp add: resolveDispute_Inr_iff)
qed simp_all

theorem resolveDispute_owner_from_disputed_witness:
  "msg_sender (env_of alice 2000) \<noteq> owner (set_status DISPUTED funded)
   \<and> resolveDispute (env_of alice 2000) 1 True (set_status DISPUTED funded) = Inl OnlyOwner
   \<and> msg_sender (env_of carol 2000) = owner funded \<and> escrowExists 1 funded
   \<and> status (escrows funded 1) = PENDING
   \<and> resolveDispute (env_of carol 2000) 1 True funded = Inl EscrowNotDisputed
   \<and> status (escrows (set_status DELIVERED funded) 1) = DELIVERED
   \<and> resolveDispute (env_of carol 2000) 1 False (set_status DELIVERED funded)
       = Inl EscrowNotDisputed
   \<and> status (escrows (set_status DISPUTED funded) 1) = DISPUTED
   \<and> can_refund (env_of carol 2000) 1 (set_status DISPUTED funded)
   \<and> can_settle (env_of carol 2000) 1 (set_status DISPUTED funded)
   \<and> resolveDispute (env_of carol 2000) 1 True (set_status DISPUTED funded)
       = Inr (refunded 1 (set_status DISPUTED funded),
              refund_effects 1 (set_status DISPUTED funded))
   \<and> status (escrows (refunded 1 (set_status DISPUTED funded)) 1) = REFUNDED
   \<and> transfers_of (refund_effects 1 (set_status DISPUTED funded)) = [(alice, 10 ^ 20)]
   \<and> resolveDispute (env_of carol 2000) 1 False (set_status DISPUTED funded)
       = Inr (settled 1 (set_status DISPUTED funded),
              settle_effects 1 (set_status DISPUTED funded))
   \<and> status (escrows (settled 1 (set_status DISPUTED funded)) 1) = DELIVERED
   \<and> transfers_of (settle_effects 1 (set_status DISPUTED funded))
       = [(treasury, 25 * 10 ^ 17), (bob, 975 * 10 ^ 17)]"
proof -
  have facts: "msg_sender (env_of alice 2000) \<noteq> owner (set_status DISPUTED funded)"
    "msg_sender (env_of carol 2000) = owner funded"
    "msg_sender (env_of carol 2000) = owner (set_status DELIVERED funded)"
    "msg_sender (env_of carol 2000) = owner (set_status DISPUTED funded)"
    "escrowExists 1 funded" "escrowExists 1 (set_status DELIVERED funded)"
    "escrowExists 1 (set_status DISPUTED funded)"
    "status (escrows funded 1) = PENDING"
    "status (escrows (set_status DELIVERED funded) 1) = DELIVERED"
    "status (escrows (set_status DISPUTED funded) 1) = DISPUTED"
    "can_refund (env_of carol 2000) 1 (set_status DISPUTED funded)"
    "can_settle (env_of carol 2000) 1 (set_status DISPUTED funded)"
    by (simp_all add: sample_defs guard_defs can_refund_def can_settle_def Let_def)
  have vals: "platformWallet (set_status DISPUTED funded) = treasury"
    "seller (escrows (set_status DISPUTED funded) 1) = bob"
    "buyer (escrows (set_status DISPUTED funded) 1) = alice"
    "unat (amount (escrows (set_status DISPUTED funded) 1)) = 10 ^ 20"
    "unat (platformFee (set_status DISPUTED funded)) = 250"
    "spec_settle treasury bob (10 ^ 20) 250 = [(treasury, 25 * 10 ^ 17), (bob, 975 * 10 ^ 17)]"
    by (simp_all add: sample_defs spec_settle_def spec_feeAmount_def spec_sellerAmount_def)
  have r1: "resolveDispute (env_of alice 2000) 1 True (set_status DISPUTED funded) = Inl OnlyOwner"
    using facts(1)
      resolveDispute_owner_from_disputed
        [of "env_of alice 2000" "set_status DISPUTED funded" 1 True, THEN conjunct1]
    by simp
  have r2: "resolveDispute (env_of carol 2000) 1 True funded = Inl EscrowNotDisputed"
    using facts(2,5,8)
      resolveDispute_owner_from_disputed [of "env_of carol 2000" funded 1 True,
        THEN conjunct2, THEN conjunct1]
    by simp
  have r3: "resolveDispute (env_of carol 2000) 1 False (set_status DELIVERED funded)
       = Inl EscrowNotDisputed"
    using facts(3,6,9)
      resolveDispute_owner_from_disputed
        [of "env_of carol 2000" "set_status DELIVERED funded" 1 False,
          THEN conjunct2, THEN conjunct1]
    by simp
  note r4 = resolveDispute_owner_from_disputed
        [of "env_of carol 2000" "set_status DISPUTED funded" 1 True
          "refunded 1 (set_status DISPUTED funded)"
          "refund_effects 1 (set_status DISPUTED funded)", THEN conjunct2, THEN conjunct2]
  have r4a: "resolveDispute (env_of carol 2000) 1 True (set_status DISPUTED funded)
       = Inr (refunded 1 (set_status DISPUTED funded),
              refund_effects 1 (set_status DISPUTED funded))"
    using facts(4,7,10,11) r4 [THEN conjunct2] by simp
  have r4b: "status (escrows (refunded 1 (set_status DISPUTED funded)) 1) = REFUNDED
     \<and> transfers_of (refund_effects 1 (set_status DISPUTED funded)) = [(alice, 10 ^ 20)]"
    using r4a r4 [THEN conjunct1] vals(3,4) by simp
  note r5 = resolveDispute_owner_from_disputed
        [of "env_of carol 2000" "set_status DISPUTED funded" 1 False
          "settled 1 (set_status DISPUTED funded)"
          "settle_effects 1 (set_status DISPUTED funded)", THEN conjunct2, THEN conjunct2]
  have r5a: "resolveDispute (env_of carol 2000) 1 False (set_status DISPUTED funded)
       = Inr (settled 1 (set_status DISPUTED funded),
              settle_effects 1 (set_status DISPUTED funded))"
    using facts(4,7,10,12) r5 [THEN conjunct2] by simp
  have r5b: "status (escrows (settled 1 (set_status DISPUTED funded)) 1) = DELIVERED
     \<and> transfers_of (settle_effects 1 (set_status DISPUTED funded))
       = [(treasury, 25 * 10 ^ 17), (bob, 975 * 10 ^ 17)]"
    using r5a r5 [THEN conjunct1] vals(1,2,4,5,6) by simp
  show ?thesis
    using facts(1,2,5,8,9,10,11,12) r1 r2 r3 r4a r4b r5a r5b by blast
qed

subsection \<open>The scenario of the specification\<close>

text \<open>
  C9. The contract counts in wei and the front end turns the amount typed into wei with
  \<open>parseEther\<close>, so an amount of 100 is \<open>100 * 10 ^ 18\<close>. After deployment (fee rate
  250), Alice creates an escrow of that amount for Bob and gets identifier 1; she then
  confirms delivery: the status is DELIVERED, Bob is paid \<open>97.5 * 10 ^ 18\<close> and the
  platform wallet \<open>2.5 * 10 ^ 18\<close>.
\<close>

theorem scenario_buyer_confirms:
  "platformFee deployed = 250
   \<and> fst (run deployed
        [(env_of alice 1000, CreateEscrow (100 * ether) bob ''first edition'' 7)]) = funded
   \<and> createEscrow (env_of alice 1000) (100 * ether) bob ''first edition'' 7 deployed
       = Inr (1, funded, [EscrowCreated 1 alice bob (100 * ether) ''first edition''])
   \<and> amount (escrows funded 1) = 100 * ether \<and> unat ether = 10 ^ 18
   \<and> (\<exists>s' fx. confirmDelivery (env_of alice 2000) 1 funded = Inr (s', fx)
         \<and> status (escrows s' 1) = DELIVERED
         \<and> transfers_of fx = [(treasury, 25 * 10 ^ 17), (bob, 975 * 10 ^ 17)]
         \<and> balance s' = 0)"
proof -
  have "status (escrows (settled 1 (update_escrow 1 (\<lambda>e. e\<lparr>buyerConfirmed := True\<rparr>) funded)) 1)
      = DELIVERED"
    "balance (settled 1 (update_escrow 1 (\<lambda>e. e\<lparr>buyerConfirmed := True\<rparr>) funded)) = 0"
    by (simp_all add: settled_def sample_defs)
  then have "\<exists>s' fx. confirmDelivery (env_of alice 2000) 1 funded = Inr (s', fx)
         \<and> status (escrows s' 1) = DELIVERED
         \<and> transfers_of fx = [(treasury, 25 * 10 ^ 17), (bob, 975 * 10 ^ 17)]
         \<and> balance s' = 0"
    by (simp add: confirm_sample)
  moreover have "platformFee deployed = 250" "amount (escrows funded 1) = 100 * ether"
    "unat ether = 10 ^ 18"
    by (simp_all add: sample_defs)
  ultimately show ?thesis by (simp add: create_sample)
qed

text \<open>
  In the contract's own unit the fee is floored: an escrow of 100 wei at the same rate is
  split into 2 for the platform wallet and 98 for the seller.
\<close>

lemma settle_hundred_wei:
  "transfers_of (settle_effects 1
      (funded\<lparr>escrows := (escrows funded)(1 := sample_escrow\<lparr>amount := 100\<rparr>)\<rparr>))
     = [(treasury, 2), (bob, 98)]"
  by (simp add: settle_effects_def sample_defs Let_def)

subsection \<open>Creating an escrow\<close>

lemma createEscrow_rejects:
  "createEscrow env msg_value seller' itemDescription' deliveryDays s =
     (if msg_value = 0 then Inl AmountNotPositive
      else if seller' = 0 then Inl InvalidSeller
      else if seller' = msg_sender env then Inl BuyerIsSeller
      else if deliveryDays < 1 \<or> deliveryDays > 365 then Inl InvalidDeliveryDays
      else createEscrow env msg_value seller' itemDescription' deliveryDays s)"
  by (auto simp: createEscrow_def Let_def word_gt_0 word_less_1 not_le)

lemma unat_delivery_seconds:
  assumes "(deliveryDays :: uint256) \<le> 365"
  shows "unat deliveryDays * 86400 < 2 ^ 256" "unat (deliveryDays * 86400) = unat deliveryDays * 86400"
proof -
  have "unat deliveryDays \<le> 365" using assms by (simp add: word_le_nat_alt)
  then show a: "unat deliveryDays * 86400 < 2 ^ 256" by simp
  have "unat (deliveryDays * 86400) = unat deliveryDays * unat (86400 :: uint256)"
    using a by (simp add: unat_mult_lem [THEN iffD1])
  then show "unat (deliveryDays * 86400) = unat deliveryDays * 86400" by simp
qed

lemma createEscrow_accepts:
  assumes "msg_value \<noteq> 0" "seller' \<noteq> 0" "seller' \<noteq> msg_sender env"
    "1 \<le> deliveryDays" "deliveryDays \<le> 365"
    and "unat (nextEscrowId s) + 1 < 2 ^ 256"
    and "unat (block_timestamp env) + 365 * 86400 < 2 ^ 256"
  shows "createEscrow env msg_value seller' itemDescription' deliveryDays s =
     Inr (nextEscrowId s,
          s\<lparr>balance := balance s + msg_value, nextEscrowId := nextEscrowId s + 1,
            escrows := (escrows s)(nextEscrowId s :=
              \<lparr>buyer = msg_sender env, seller = seller', amount = msg_value,
               status = PENDING, createdAt = block_timestamp env,
               deliveryDeadline = block_timestamp env + deliveryDays * 86400,
               itemDescription = itemDescription',
               buyerConfirmed = False, sellerConfirmed = False\<rparr>)\<rparr>,
          [EscrowCreated (nextEscrowId s) (msg_sender env) seller' msg_value itemDescription'])"
proof -
  have d: "0 < deliveryDays" using assms(4) by unat_arith
  have secs: "unat deliveryDays * 86400 < 2 ^ 256"
    "unat (deliveryDays * 86400) = unat deliveryDays * 86400"
    using unat_delivery_seconds [OF assms(5)] by simp_all
  have "unat deliveryDays \<le> 365" using assms(5) by (simp add: word_le_nat_alt)
  then have dl: "unat (block_timestamp env) + unat (deliveryDays * 86400) < 2 ^ 256"
    using assms(7) secs(2) by simp
  show ?thesis
    using assms(1-3,5,6) d secs(1) dl
    by (simp add: createEscrow_def Let_def checked_add_def checked_mul_def word_gt_0)
qed

text \<open>
  C6. Short of an arithmetic overflow (the identifier counter at its last value, a clock
  within a year of \<open>2 ^ 256\<close> seconds), \<open>createEscrow\<close> is rejected exactly when the
  attached amount is zero, the seller is the null account, the seller is the caller, or
  the number of days is outside 1..365, each time with an error of class InvalidInput.
  Otherwise it returns the identifier counter's value, advances the counter by one, and
  stores under that identifier a record with the caller as buyer, the attached funds as
  amount, status PENDING, both flags false and the deadline at the call's time plus
  86400 seconds for each day; the contract's balance has grown by the attached funds and
  no other record has changed. A new contract's counter is 1.
\<close>

theorem createEscrow_validates_and_stores:
  assumes "unat (nextEscrowId s) + 1 < 2 ^ 256"
    and "unat (block_timestamp env) + 365 * 86400 < 2 ^ 256"
    and "bad \<longleftrightarrow> msg_value = 0 \<or> seller' = 0 \<or> seller' = msg_sender env
           \<or> deliveryDays < 1 \<or> deliveryDays > 365"
    and "r = createEscrow env msg_value seller' itemDescription' deliveryDays s"
  shows "(bad \<longrightarrow> (\<exists>err. r = Inl err \<and> class_of err = InvalidInput))
     \<and> (\<not> bad \<longrightarrow>
          (\<exists>s'. r = Inr (nextEscrowId s, s',
                     [EscrowCreated (nextEscrowId s) (msg_sender env) seller' msg_value
                        itemDescription'])
             \<and> nextEscrowId s' = nextEscrowId s + 1
             \<and> unat (nextEscrowId s') = unat (nextEscrowId s) + 1
             \<and> escrows s' (nextEscrowId s) =
                 \<lparr>buyer = msg_sender env, seller = seller', amount = msg_value,
                  status = PENDING, createdAt = block_timestamp env,
                  deliveryDeadline = block_timestamp env + deliveryDays * 86400,
                  itemDescription = itemDescription',
                  buyerConfirmed = False, sellerConfirmed = False\<rparr>
             \<and> unat (deliveryDeadline (escrows s' (nextEscrowId s)))
                 = unat (block_timestamp env) + unat deliveryDays * 86400
             \<and> (\<forall>other. other \<noteq> nextEscrowId s \<longrightarrow> escrows s' other = escrows s other)
             \<and> balance s' = balance s + msg_value))
     \<and> nextEscrowId (constructor env platformWallet') = 1"
proof (intro conjI impI)
  assume bad
  then show "\<exists>err. r = Inl err \<and> class_of err = InvalidInput"
    using assms(3,4) createEscrow_rejects [of env msg_value seller' itemDescription' deliveryDays s]
    by (auto split: if_splits)
next
  assume ok: "\<not> bad"
  then have ok': "msg_value \<noteq> 0" "seller' \<noteq> 0" "seller' \<noteq> msg_sender env"
    "1 \<le> deliveryDays" "deliveryDays \<le> 365"
    using assms(3) by (auto simp: not_less word_le_nat_alt unat_gt_0 Suc_le_eq)
  have secs: "unat (deliveryDays * 86400) = unat deliveryDays * 86400"
    using unat_delivery_seconds [OF ok'(5)] by simp
  have "unat deliveryDays \<le> 365" using ok'(5) by (simp add: word_le_nat_alt)
  then have "unat (block_timestamp env) + unat (deliveryDays * 86400) < 2 ^ 256"
    using assms(2) secs by simp
  then have dl: "unat (block_timestamp env + deliveryDays * 86400)
      = unat (block_timestamp env) + unat deliveryDays * 86400"
    using secs by (simp add: unat_add_lem [THEN iffD1])
  have nx: "unat (nextEscrowId s + 1) = unat (nextEscrowId s) + 1"
    using assms(1) by (simp add: unat_add_lem [THEN iffD1])
  show "\<exists>s'. r = Inr (nextEscrowId s, s',
                     [EscrowCreated (nextEscrowId s) (msg_sender env) seller' msg_value
                        itemDescription'])
             \<and> nextEscrowId s' = nextEscrowId s + 1
             \<and> unat (nextEscrowId s') = unat (nextEscrowId s) + 1
             \<and> escrows s' (nextEscrowId s) =
                 \<lparr>buyer = msg_sender env, seller = seller', amount = msg_value,
                  status = PENDING, createdAt = block_timestamp env,
                  deliveryDeadline = block_timestamp env + deliveryDays * 86400,
                  itemDescription = itemDescription',
                  buyerConfirmed = False, sellerConfirmed = False\<rparr>
             \<and> unat (deliveryDeadline (escrows s' (nextEscrowId s)))
                 = unat (block_timestamp env) + unat deliveryDays * 86400
             \<and> (\<forall>other. other \<noteq> nextEscrowId s \<longrightarrow> escrows s' other = escrows s other)
             \<and> balance s' = balance s + msg_value"
    using createEscrow_accepts [OF ok' assms(1,2), of itemDescription'] assms(4) dl nx
    by simp
next
  show "nextEscrowId (constructor env platformWallet') = 1"
    by (simp add: constructor_def)
qed

theorem createEscrow_validates_and_stores_witness:
  "unat (nextEscrowId deployed) + 1 < 2 ^ 256
   \<and> unat (block_timestamp (env_of alice 1000)) + 365 * 86400 < 2 ^ 256
   \<and> (\<exists>s'. createEscrow (env_of alice 1000) (100 * ether) bob ''first edition'' 7 deployed
              = Inr (1, s', [EscrowCreated 1 alice bob (100 * ether) ''first edition''])
           \<and> nextEscrowId s' = 2
           \<and> buyer (escrows s' 1) = alice \<and> seller (escrows s' 1) = bob
           \<and> amount (escrows s' 1) = 100 * ether \<and> status (escrows s' 1) = PENDING
           \<and> \<not> buyerConfirmed (escrows s' 1) \<and> \<not> sellerConfirmed (escrows s' 1)
           \<and> unat (deliveryDeadline (escrows s' 1)) = 1000 + 7 * 86400
           \<and> balance s' = 100 * ether)
   \<and> (\<exists>err. createEscrow (env_of alice 1000) 0 bob ''first edition'' 7 deployed = Inl err
           \<and> class_of err = InvalidInput)
   \<and> (\<exists>err. createEscrow (env_of alice 1000) (100 * ether) bob ''first edition'' 366 deployed
              = Inl err
           \<and> class_of err = InvalidInput)
   \<and> (\<exists>err. createEscrow (env_of alice 1000) (100 * ether) alice ''first edition'' 7 deployed
              = Inl err
           \<and> class_of err = InvalidInput)"
proof -
  have h1: "unat (nextEscrowId deployed) + 1 < 2 ^ 256"
    and h2: "unat (block_timestamp (env_of alice 1000)) + 365 * 86400 < 2 ^ 256"
    by (simp_all add: sample_defs)
  have good: "False \<longleftrightarrow> 100 * ether = 0 \<or> bob = 0 \<or> bob = msg_sender (env_of alice 1000)
           \<or> (7 :: uint256) < 1 \<or> (7 :: uint256) > 365"
    by (simp add: sample_defs)
  have bad1: "True \<longleftrightarrow> (0 :: uint256) = 0 \<or> bob = 0 \<or> bob = msg_sender (env_of alice 1000)
           \<or> (7 :: uint256) < 1 \<or> (7 :: uint256) > 365"
    by simp
  have bad2: "True \<longleftrightarrow> 100 * ether = 0 \<or> bob = 0 \<or> bob = msg_sender (env_of alice 1000)
           \<or> (366 :: uint256) < 1 \<or> (366 :: uint256) > 365"
    by simp
  have bad3: "True \<longleftrightarrow> 100 * ether = 0 \<or> alice = 0 \<or> alice = msg_sender (env_of alice 1000)
           \<or> (7 :: uint256) < 1 \<or> (7 :: uint256) > 365"
    by (simp add: sample_defs)
  have vals: "nextEscrowId deployed = 1" "msg_sender (env_of alice 1000) = alice"
    "unat (block_timestamp (env_of alice 1000)) = 1000" "balance deployed = 0"
    by (simp_all add: sample_defs)
  have a: "\<exists>s'. createEscrow (env_of alice 1000) (100 * ether) bob ''first edition'' 7 deployed
              = Inr (1, s', [EscrowCreated 1 alice bob (100 * ether) ''first edition''])
           \<and> nextEscrowId s' = 2
           \<and> buyer (escrows s' 1) = alice \<and> seller (escrows s' 1) = bob
           \<and> amount (escrows s' 1) = 100 * ether \<and> status (escrows s' 1) = PENDING
           \<and> \<not> buyerConfirmed (escrows s' 1) \<and> \<not> sellerConfirmed (escrows s' 1)
           \<and> unat (deliveryDeadline (escrows s' 1)) = 1000 + 7 * 86400
           \<and> balance s' = 100 * ether"
    using createEscrow_validates_and_stores [OF h1 h2 good refl, of "''first edition''" treasury,
        THEN conjunct2, THEN conjunct1] vals
    by auto
  have b: "\<exists>err. createEscrow (env_of alice 1000) 0 bob ''first edition'' 7 deployed = Inl err
           \<and> class_of err = InvalidInput"
    using createEscrow_validates_and_stores [OF h1 h2 bad1 refl, THEN conjunct1] by simp
  have c: "\<exists>err. createEscrow (env_of alice 1000) (100 * ether) bob ''first edition'' 366 deployed
              = Inl err \<and> class_of err = InvalidInput"
    using createEscrow_validates_and_stores [OF h1 h2 bad2 refl, THEN conjunct1] by simp
  have d: "\<exists>err. createEscrow (env_of alice 1000) (100 * ether) alice ''first edition'' 7 deployed
              = Inl err \<and> class_of err = InvalidInput"
    using createEscrow_validates_and_stores [OF h1 h2 bad3 refl, THEN conjunct1] by simp
  show ?thesis using h1 h2 a b c d by blast
qed

subsection \<open>Looking an escrow up\<close>

lemma getEscrow_by_counter:
  "getEscrow escrowId s =
     (if escrowId < nextEscrowId s then Inr (escrows s escrowId) else Inl EscrowDoesNotExist)"
  by (simp add: getEscrow_def escrowExists_def)

text \<open>
  C4. Identifiers are handed out from 1, so identifier 0 is never assigned. But the
  existence guard only compares with the counter, and 0 is below it from deployment on:
  \<open>getEscrow 0\<close> returns, with the all-zero record, on the new contract and after an
  escrow has been created.
\<close>

theorem getEscrow_zero_returns:
  "nextEscrowId deployed = 1
   \<and> getEscrow 0 deployed = Inr zero_escrow
   \<and> createEscrow (env_of alice 1000) (100 * ether) bob ''first edition'' 7 deployed
       = Inr (1, funded, [EscrowCreated 1 alice bob (100 * ether) ''first edition''])
   \<and> getEscrow 0 funded = Inr zero_escrow
   \<and> getEscrow 1 funded = Inr sample_escrow
   \<and> getEscrow 2 funded = Inl EscrowDoesNotExist
   \<and> class_of EscrowDoesNotExist = NotFound"
  by (simp add: create_sample getEscrow_by_counter) (simp add: sample_defs)

subsection \<open>What a call that returns has done\<close>

lemma confirmDelivery_Inr:
  assumes "confirmDelivery env escrowId s = Inr (s', fx)"
  shows "escrowExists escrowId s \<and> status (escrows s escrowId) = PENDING
    \<and> nextEscrowId s' = nextEscrowId s
    \<and> (\<forall>other. other \<noteq> escrowId \<longrightarrow> escrows s' other = escrows s other)
    \<and> ((status (escrows s' escrowId) = PENDING \<and> \<not> buyerConfirmed (escrows s' escrowId)
          \<and> transfers_of fx = [])
       \<or> (status (escrows s' escrowId) = DELIVERED \<and> can_settle env escrowId s
          \<and> fx = DeliveryConfirmed escrowId (msg_sender env) # settle_effects escrowId s))"
proof -
  define s1 where "s1 = (if msg_sender env = buyer (escrows s escrowId)
      then update_escrow escrowId (\<lambda>e. e\<lparr>buyerConfirmed := True\<rparr>) s
      else update_escrow escrowId (\<lambda>e. e\<lparr>sellerConfirmed := True\<rparr>) s)"
  have same: "can_settle env escrowId s1 = can_settle env escrowId s"
    "settle_effects escrowId s1 = settle_effects escrowId s"
    by (simp_all add: s1_def)
  have guards: "escrowExists escrowId s" "escrowPending escrowId s"
    "onlyParticipant env escrowId s"
    using assms(1) by (auto simp: confirmDelivery_def split: if_splits)
  then have s1: "status (escrows s1 escrowId) = PENDING" "nextEscrowId s1 = nextEscrowId s"
    "\<forall>other. other \<noteq> escrowId \<longrightarrow> escrows s1 other = escrows s other"
    by (simp_all add: s1_def escrowPending_def update_escrow_def)
  have cd: "confirmDelivery env escrowId s =
     (if buyerConfirmed (escrows s1 escrowId)
      then (case completeEscrow env escrowId s1 of Inl err \<Rightarrow> Inl err
            | Inr (s2, fx2) \<Rightarrow> Inr (s2, [DeliveryConfirmed escrowId (msg_sender env)] @ fx2))
      else Inr (s1, [DeliveryConfirmed escrowId (msg_sender env)]))"
    unfolding confirmDelivery_def Let_def s1_def [symmetric] using guards by simp
  show ?thesis
  proof (cases "buyerConfirmed (escrows s1 escrowId)")
    case True
    then obtain fx2 where "completeEscrow env escrowId s1 = Inr (s', fx2)"
      "fx = DeliveryConfirmed escrowId (msg_sender env) # fx2"
      using assms(1) cd by (auto split: sum.splits prod.splits)
    then have "can_settle env escrowId s" "s' = settled escrowId s1"
      "fx = DeliveryConfirmed escrowId (msg_sender env) # settle_effects escrowId s"
      using completeEscrow_iff [of env escrowId s1 s' fx2] same by simp_all
    then show ?thesis
      using guards s1 by (simp add: settled_def update_escrow_def escrowPending_def)
  next
    case False
    then have "s' = s1" "fx = [DeliveryConfirmed escrowId (msg_sender env)]"
      using assms(1) cd by simp_all
    then show ?thesis using guards s1 False by (simp add: escrowPending_def)
  qed
qed

lemma raiseDispute_Inr_iff:
  "raiseDispute env escrowId s = Inr (s', fx) \<longleftrightarrow>
     escrowExists escrowId s \<and> status (escrows s escrowId) = PENDING
     \<and> onlyParticipant env escrowId s
     \<and> s' = update_escrow escrowId (\<lambda>e. e\<lparr>status := DISPUTED\<rparr>) s
     \<and> fx = [DisputeRaised escrowId (msg_sender env)]"
  by (auto simp: raiseDispute_def escrowPending_def)

lemma createEscrow_Inr:
  assumes "createEscrow env msg_value seller' itemDescription' deliveryDays s
      = Inr (escrowId, s', fx)"
  shows "escrowId = nextEscrowId s \<and> unat (nextEscrowId s') = unat (nextEscrowId s) + 1
    \<and> (\<forall>other. other \<noteq> nextEscrowId s \<longrightarrow> escrows s' other = escrows s other)
    \<and> status (escrows s' (nextEscrowId s)) = PENDING
    \<and> transfers_of fx = []"
  using assms
  by (auto simp: createEscrow_def Let_def checked_add_def unat_add_lem [THEN iffD1]
      split: if_splits option.splits)

lemma admin_Inr_iff:
  "updatePlatformFee env newFee s = Inr (s', fx) \<longleftrightarrow>
     msg_sender env = owner s \<and> newFee \<le> 1000 \<and> s' = s\<lparr>platformFee := newFee\<rparr> \<and> fx = []"
  "updatePlatformWallet env newWallet s = Inr (s', fx) \<longleftrightarrow>
     msg_sender env = owner s \<and> newWallet \<noteq> 0 \<and> s' = s\<lparr>platformWallet := newWallet\<rparr>
     \<and> fx = []"
  "emergencyWithdraw env s = Inr (s', fx) \<longleftrightarrow>
     msg_sender env = owner s \<and> accepts env (owner s) \<and> s' = s\<lparr>balance := 0\<rparr>
     \<and> fx = [Transfer (owner s) (balance s)]"
  by (auto simp: updatePlatformFee_def updatePlatformWallet_def emergencyWithdraw_def
      onlyOwner_def transfer_def)

text \<open>
  The frame of a call: the counter never goes down, and the only record whose status
  may differ afterwards is the one the call names.
\<close>

lemma exec_frame:
  assumes "exec env op' s = Inr (s', fx)" and "escrowExists j s"
  shows "escrowExists j s'"
    and "target op' \<noteq> Some j \<Longrightarrow> status (escrows s' j) = status (escrows s j)"
proof -
  have "escrowExists j s' \<and> (target op' \<noteq> Some j \<longrightarrow> status (escrows s' j) = status (escrows s j))"
  proof (cases op')
    case (CreateEscrow v sel d days)
    then obtain i where "createEscrow env v sel d days s = Inr (i, s', fx)"
      using assms(1) by (auto split: sum.splits prod.splits)
    moreover have "j \<noteq> nextEscrowId s" using assms(2) by (auto simp: escrowExists_def)
    ultimately show ?thesis
      using assms(2) createEscrow_Inr [of env v sel d days s i s' fx]
      by (auto simp: escrowExists_def word_less_nat_alt)
  next
    case (ConfirmDelivery i)
    then show ?thesis
      using assms confirmDelivery_Inr [of env i s s' fx] by (auto simp: escrowExists_def)
  next
    case (RequestRefund i)
    then show ?thesis
      using assms
      by (auto simp: requestRefund_Inr_iff escrowExists_def refunded_def update_escrow_def)
  next
    case (RaiseDispute i)
    then show ?thesis
      using assms by (auto simp: raiseDispute_Inr_iff escrowExists_def update_escrow_def)
  next
    case (ResolveDispute i b)
    then show ?thesis
      using assms
      by (auto simp: resolveDispute_Inr_iff escrowExists_def refunded_def settled_def
          update_escrow_def split: if_splits)
  next
    case (UpdatePlatformFee f)
    then show ?thesis using assms by (auto simp: admin_Inr_iff escrowExists_def)
  next
    case (UpdatePlatformWallet w)
    then show ?thesis using assms by (auto simp: admin_Inr_iff escrowExists_def)
  next
    case EmergencyWithdraw
    then show ?thesis using assms by (auto simp: admin_Inr_iff escrowExists_def)
  qed
  then show "escrowExists j s'"
    and "target op' \<noteq> Some j \<Longrightarrow> status (escrows s' j) = status (escrows s j)"
    by simp_all
qed

text \<open>A call that names an escrow and returns: where the status was, where it is.\<close>

lemma exec_target:
  assumes "exec env op' s = Inr (s', fx)" and "target op' = Some j"
  shows "escrowExists j s
    \<and> ((status (escrows s j) = PENDING \<and> status (escrows s' j) = PENDING
          \<and> transfers_of fx = [])
       \<or> (status (escrows s j) = PENDING \<and> status (escrows s' j) = DISPUTED
          \<and> transfers_of fx = [])
       \<or> settlement_path s j s' fx)"
proof (cases op')
  case (ConfirmDelivery i)
  then have "confirmDelivery env j s = Inr (s', fx)" using assms by simp
  from confirmDelivery_Inr [OF this] show ?thesis
    using transfers_of_settle_effects(1) [of env j s]
    by (auto simp: settlement_path_def)
next
  case (RequestRefund i)
  then show ?thesis
    using assms
    by (auto simp: requestRefund_Inr_iff settlement_path_def refunded_def refund_effects_def
        update_escrow_def)
next
  case (RaiseDispute i)
  then show ?thesis
    using assms by (auto simp: raiseDispute_Inr_iff update_escrow_def)
next
  case (ResolveDispute i b)
  then show ?thesis
    using assms transfers_of_settle_effects(1) [of env j s]
    by (auto simp: resolveDispute_Inr_iff settlement_path_def refunded_def refund_effects_def
        settled_def update_escrow_def split: if_splits)
qed (use assms in simp_all)

lemma exec_closed_escrow:
  assumes "target op' = Some j"
    and "status (escrows s j) = DELIVERED \<or> status (escrows s j) = REFUNDED"
  shows "\<exists>err. exec env op' s = Inl err"
proof (cases "exec env op' s")
  case (Inl err)
  then show ?thesis by simp
next
  case (Inr r)
  obtain s' fx where "r = (s', fx)" by (cases r)
  then show ?thesis
    using Inr exec_target [of env op' s s' fx j] assms by (auto simp: settlement_path_def)
qed

lemma spec_transition_trans:
  "spec_transition a b \<Longrightarrow> spec_transition b c \<Longrightarrow> spec_transition a c"
  by (cases a; cases b; cases c) simp_all

lemma exec_status:
  assumes "exec env op' s = Inr (s', fx)" and "escrowExists j s"
  shows "status (escrows s' j) = status (escrows s j)
     \<or> spec_transition (status (escrows s j)) (status (escrows s' j))"
proof (cases "target op' = Some j")
  case False
  then show ?thesis using exec_frame(2) [OF assms] by simp
next
  case True
  then show ?thesis
    using exec_target [OF assms(1) True] by (auto simp: settlement_path_def)
qed

lemma run_status:
  "escrowExists j s \<Longrightarrow>
     status (escrows (fst (run s calls)) j) = status (escrows s j)
     \<or> spec_transition (status (escrows s j)) (status (escrows (fst (run s calls)) j))"
proof (induction calls arbitrary: s)
  case Nil
  then show ?case by simp
next
  case (Cons c calls)
  obtain env op' where c: "c = (env, op')" by (cases c)
  show ?case
  proof (cases "exec env op' s")
    case (Inl err)
    then show ?thesis using Cons c by simp
  next
    case (Inr r)
    obtain s' fx where r: "r = (s', fx)" by (cases r)
    have ex: "escrowExists j s'" using exec_frame(1) Inr r Cons.prems by blast
    have one: "status (escrows s' j) = status (escrows s j)
       \<or> spec_transition (status (escrows s j)) (status (escrows s' j))"
      using exec_status Inr r Cons.prems by blast
    have rest: "status (escrows (fst (run s' calls)) j) = status (escrows s' j)
       \<or> spec_transition (status (escrows s' j)) (status (escrows (fst (run s' calls)) j))"
      using Cons.IH [OF ex] .
    have "fst (run s (c # calls)) = fst (run s' calls)" using Inr r c by simp
    then show ?thesis
      using one rest
        spec_transition_trans [of "status (escrows s j)" "status (escrows s' j)"
          "status (escrows (fst (run s' calls)) j)"]
      by auto
  qed
qed

subsection \<open>The status of an escrow\<close>

text \<open>
  C2. For an escrow that exists, whatever the call and the caller: the status after the
  call is the status before it or a transition the specification allows (PENDING to any
  other, DISPUTED to DELIVERED or REFUNDED); a call that is rejected leaves the whole
  storage as it was; every call that names an escrow whose status is DELIVERED or
  REFUNDED is rejected, with a state or a role error, and the record stays as it is. The
  same holds from the start to the end of any sequence of calls.
\<close>

theorem status_changes_only_as_specified:
  assumes "escrowExists escrowId s"
  shows "(status (escrows (step env op' s) escrowId) = status (escrows s escrowId)
          \<or> spec_transition (status (escrows s escrowId))
               (status (escrows (step env op' s) escrowId)))
     \<and> ((\<exists>err. exec env op' s = Inl err) \<longrightarrow> step env op' s = s)
     \<and> (target op' = Some escrowId
          \<and> (status (escrows s escrowId) = DELIVERED \<or> status (escrows s escrowId) = REFUNDED)
        \<longrightarrow> (\<exists>err. exec env op' s = Inl err
                 \<and> (class_of err = InvalidState \<or> class_of err = Forbidden))
            \<and> escrows (step env op' s) escrowId = escrows s escrowId)
     \<and> (status (escrows (fst (run s calls)) escrowId) = status (escrows s escrowId)
          \<or> spec_transition (status (escrows s escrowId))
               (status (escrows (fst (run s calls)) escrowId)))"
proof (intro conjI impI)
  show "status (escrows (step env op' s) escrowId) = status (escrows s escrowId)
          \<or> spec_transition (status (escrows s escrowId))
               (status (escrows (step env op' s) escrowId))"
  proof (cases "exec env op' s")
    case (Inl err)
    then show ?thesis by (simp add: step_def)
  next
    case (Inr r)
    obtain s' fx where "r = (s', fx)" by (cases r)
    then show ?thesis using Inr exec_status [of env op' s s' fx escrowId] assms
      by (simp add: step_def)
  qed
next
  assume "\<exists>err. exec env op' s = Inl err"
  then show "step env op' s = s" by (auto simp: step_def)
next
  assume h: "target op' = Some escrowId
          \<and> (status (escrows s escrowId) = DELIVERED \<or> status (escrows s escrowId) = REFUNDED)"
  then obtain err where err: "exec env op' s = Inl err"
    using exec_closed_escrow [of op' escrowId s env] by blast
  then show "escrows (step env op' s) escrowId = escrows s escrowId" by (simp add: step_def)
  have np: "\<not> escrowPending escrowId s" using h by (auto simp: escrowPending_def)
  have "err = EscrowNotPending \<or> err = OnlyOwner \<or> err = EscrowNotDisputed"
  proof (cases op')
    case (ConfirmDelivery i)
    then show ?thesis using h err assms np by (simp add: confirmDelivery_def)
  next
    case (RequestRefund i)
    then show ?thesis using h err assms np by (simp add: requestRefund_def)
  next
    case (RaiseDispute i)
    then show ?thesis using h err assms np by (simp add: raiseDispute_def)
  next
    case (ResolveDispute i b)
    then show ?thesis using h err assms by (auto simp: resolveDispute_def split: if_splits)
  qed (use h in simp_all)
  then show "\<exists>err. exec env op' s = Inl err
                 \<and> (class_of err = InvalidState \<or> class_of err = Forbidden)"
    using err by auto
next
  show "status (escrows (fst (run s calls)) escrowId) = status (escrows s escrowId)
          \<or> spec_transition (status (escrows s escrowId))
               (status (escrows (fst (run s calls)) escrowId))"
    using run_status [OF assms] .
qed

theorem status_changes_only_as_specified_witness:
  "escrowExists 1 funded \<and> status (escrows funded 1) = PENDING
   \<and> status (escrows (step (env_of alice 2000) (ConfirmDelivery 1) funded) 1) = DELIVERED
   \<and> spec_transition (status (escrows funded 1))
        (status (escrows (step (env_of alice 2000) (ConfirmDelivery 1) funded) 1))
   \<and> escrowExists 1 (set_status DELIVERED funded)
   \<and> target (RaiseDispute 1) = Some 1
   \<and> status (escrows (set_status DELIVERED funded) 1) = DELIVERED
   \<and> (\<exists>err. exec (env_of bob 3000) (RaiseDispute 1) (set_status DELIVERED funded) = Inl err
           \<and> (class_of err = InvalidState \<or> class_of err = Forbidden))
   \<and> step (env_of bob 3000) (RaiseDispute 1) (set_status DELIVERED funded)
       = set_status DELIVERED funded"
proof -
  have ex1: "escrowExists 1 funded" and ex2: "escrowExists 1 (set_status DELIVERED funded)"
    by (simp_all add: sample_defs guard_defs)
  have st: "status (escrows funded 1) = PENDING"
    "status (escrows (set_status DELIVERED funded) 1) = DELIVERED"
    "target (RaiseDispute 1) = Some 1"
    by (simp_all add: sample_defs)
  have after: "status (escrows (step (env_of alice 2000) (ConfirmDelivery 1) funded) 1) = DELIVERED"
    by (simp add: step_def confirm_sample settled_def update_escrow_def)
  note a = status_changes_only_as_specified
    [OF ex1, of "env_of alice 2000" "ConfirmDelivery 1" "[]", THEN conjunct1]
  note b = status_changes_only_as_specified
    [OF ex2, of "env_of bob 3000" "RaiseDispute 1" "[]", THEN conjunct2]
  have tr: "spec_transition (status (escrows funded 1))
        (status (escrows (step (env_of alice 2000) (ConfirmDelivery 1) funded) 1))"
    using a after st(1) by simp
  have rej: "\<exists>err. exec (env_of bob 3000) (RaiseDispute 1) (set_status DELIVERED funded) = Inl err
           \<and> (class_of err = InvalidState \<or> class_of err = Forbidden)"
    using b [THEN conjunct2, THEN conjunct1] st(2,3) by blast
  then have same: "step (env_of bob 3000) (RaiseDispute 1) (set_status DELIVERED funded)
       = set_status DELIVERED funded"
    using b [THEN conjunct1] by blast
  show ?thesis using ex1 ex2 st after tr rej same by blast
qed

subsection \<open>Where the funds go\<close>

lemma payouts_Cons:
  "payouts j ((op', fx) # log) =
     (if target op' = Some j \<and> transfers_of fx \<noteq> [] then 1 else 0) + payouts j log"
  by (simp add: payouts_def)

lemma exec_pays:
  assumes "exec env op' s = Inr (s', fx)" and "op' \<noteq> EmergencyWithdraw"
  shows "pays_as_specified op' s s' fx"
proof (cases "target op'")
  case (Some j)
  then show ?thesis
    using exec_target [OF assms(1) Some] by (auto simp: pays_as_specified_def)
next
  case None
  then show ?thesis
  proof (cases op')
    case (CreateEscrow v sel d days)
    then obtain i where "createEscrow env v sel d days s = Inr (i, s', fx)"
      using assms(1) by (auto split: sum.splits prod.splits)
    from createEscrow_Inr [OF this] show ?thesis by (simp add: pays_as_specified_def)
  next
    case (UpdatePlatformFee f)
    then show ?thesis using assms(1) by (simp add: admin_Inr_iff pays_as_specified_def)
  next
    case (UpdatePlatformWallet w)
    then show ?thesis using assms(1) by (simp add: admin_Inr_iff pays_as_specified_def)
  qed (use assms(2) in simp_all)
qed

lemma run_closed_escrow:
  "escrowExists j s \<Longrightarrow>
   status (escrows s j) = DELIVERED \<or> status (escrows s j) = REFUNDED \<Longrightarrow>
   payouts j (snd (run s calls)) = 0"
proof (induction calls arbitrary: s)
  case Nil
  then show ?case by (simp add: payouts_def)
next
  case (Cons c calls)
  obtain env op' where c: "c = (env, op')" by (cases c)
  show ?case
  proof (cases "exec env op' s")
    case (Inl err)
    then show ?thesis using Cons c by simp
  next
    case (Inr r)
    obtain s' fx where r: "r = (s', fx)" by (cases r)
    have other: "target op' \<noteq> Some j"
      using exec_closed_escrow [of op' j s env] Cons.prems(2) Inr by auto
    have "escrowExists j s'" "status (escrows s' j) = status (escrows s j)"
      using exec_frame [of env op' s s' fx j] Inr r Cons.prems(1) other by simp_all
    then have "payouts j (snd (run s' calls)) = 0"
      using Cons.IH [of s'] Cons.prems(2) by simp
    then show ?thesis using Inr r c other by (simp add: payouts_Cons)
  qed
qed

lemma run_pays_once: "payouts j (snd (run s calls)) \<le> 1"
proof (induction calls arbitrary: s)
  case Nil
  then show ?case by (simp add: payouts_def)
next
  case (Cons c calls)
  obtain env op' where c: "c = (env, op')" by (cases c)
  show ?case
  proof (cases "exec env op' s")
    case (Inl err)
    then show ?thesis using Cons c by simp
  next
    case (Inr r)
    obtain s' fx where r: "r = (s', fx)" by (cases r)
    have run: "snd (run s (c # calls)) = (op', fx) # snd (run s' calls)"
      using Inr r c by simp
    show ?thesis
    proof (cases "target op' = Some j \<and> transfers_of fx \<noteq> []")
      case False
      then have "payouts j ((op', fx) # snd (run s' calls)) = payouts j (snd (run s' calls))"
        by (auto simp: payouts_Cons)
      then show ?thesis using run Cons.IH [of s'] by simp
    next
      case True
      then have t: "escrowExists j s" "settlement_path s j s' fx"
        using exec_target [of env op' s s' fx j] Inr r by auto
      then have "escrowExists j s'"
        "status (escrows s' j) = DELIVERED \<or> status (escrows s' j) = REFUNDED"
        using exec_frame(1) [of env op' s s' fx j] Inr r by (auto simp: settlement_path_def)
      then have "payouts j (snd (run s' calls)) = 0" by (rule run_closed_escrow)
      then show ?thesis using run True by (simp add: payouts_Cons)
    qed
  qed
qed

text \<open>
  C5, as the claim has it, fails: \<open>emergencyWithdraw\<close> sends the whole balance of the
  contract to the owner. On the sample ledger the 100 ether held for escrow 1 go to
  Carol, who is neither its buyer nor its seller nor the platform wallet, while the escrow
  stays PENDING; after that the buyer's confirmation cannot be paid.
\<close>

theorem emergencyWithdraw_takes_held_funds:
  "status (escrows funded 1) = PENDING \<and> amount (escrows funded 1) = balance funded
   \<and> exec (env_of carol 2000) EmergencyWithdraw funded
       = Inr (funded\<lparr>balance := 0\<rparr>, [Transfer carol (100 * ether)])
   \<and> \<not> pays_as_specified EmergencyWithdraw funded (funded\<lparr>balance := 0\<rparr>)
         [Transfer carol (100 * ether)]
   \<and> carol \<noteq> buyer (escrows funded 1) \<and> carol \<noteq> seller (escrows funded 1)
   \<and> carol \<noteq> platformWallet funded
   \<and> status (escrows (funded\<lparr>balance := 0\<rparr>) 1) = PENDING
   \<and> confirmDelivery (env_of alice 3000) 1 (funded\<lparr>balance := 0\<rparr>) = Inl TransferFailed"
proof -
  have "exec (env_of carol 2000) EmergencyWithdraw funded
       = Inr (funded\<lparr>balance := 0\<rparr>, [Transfer carol (100 * ether)])"
    by (simp add: emergencyWithdraw_def onlyOwner_def transfer_def sample_defs)
  moreover have "\<not> pays_as_specified EmergencyWithdraw funded (funded\<lparr>balance := 0\<rparr>)
         [Transfer carol (100 * ether)]"
    by (simp add: pays_as_specified_def)
  moreover have "confirmDelivery (env_of alice 3000) 1 (funded\<lparr>balance := 0\<rparr>)
      = Inl TransferFailed"
    by (simp add: confirmDelivery_def completeEscrow_def transfer_def checked_mul_def
        checked_sub_def guard_defs sample_defs Let_def)
  ultimately show ?thesis by (simp add: sample_defs)
qed

text \<open>
  C5, amended. Every call other than \<open>emergencyWithdraw\<close> that returns has paid nothing,
  or has paid for the escrow it names along one of the two paths: that escrow was PENDING
  or DISPUTED and is now DELIVERED, the payments being the fee to the platform wallet and
  the rest to the seller, or it is now REFUNDED, the one payment being the whole amount to
  the buyer. In any sequence of calls, from any storage, at most one call pays for a given
  escrow. \<open>emergencyWithdraw\<close>, which only the owner may call, pays the contract's whole
  balance to the owner and changes no record.
\<close>

theorem funds_leave_once_along_settlement_paths:
  "(op' \<noteq> EmergencyWithdraw \<and> exec env op' s = Inr (s', fx) \<longrightarrow>
      pays_as_specified op' s s' fx)
   \<and> payouts escrowId (snd (run s calls)) \<le> 1
   \<and> (exec env EmergencyWithdraw s = Inr (s', fx) \<longrightarrow>
      msg_sender env = owner s \<and> transfers_of fx = [(owner s, unat (balance s))]
      \<and> balance s' = 0 \<and> escrows s' = escrows s)"
proof (intro conjI impI)
  assume "op' \<noteq> EmergencyWithdraw \<and> exec env op' s = Inr (s', fx)"
  then show "pays_as_specified op' s s' fx" using exec_pays by blast
next
  show "payouts escrowId (snd (run s calls)) \<le> 1" by (rule run_pays_once)
next
  assume "exec env EmergencyWithdraw s = Inr (s', fx)"
  then show "msg_sender env = owner s" "transfers_of fx = [(owner s, unat (balance s))]"
    "balance s' = 0" "escrows s' = escrows s"
    by (simp_all add: admin_Inr_iff)
qed

theorem funds_leave_once_along_settlement_paths_witness:
  "ConfirmDelivery 1 \<noteq> EmergencyWithdraw
   \<and> exec (env_of alice 2000) (ConfirmDelivery 1) funded
       = Inr (settled 1 (update_escrow 1 (\<lambda>e. e\<lparr>buyerConfirmed := True\<rparr>) funded),
              [DeliveryConfirmed 1 alice, Transfer treasury (25 * 10 ^ 17),
               Transfer bob (975 * 10 ^ 17), EscrowCompleted 1 (975 * 10 ^ 17) (25 * 10 ^ 17)])
   \<and> pays_as_specified (ConfirmDelivery 1) funded
        (settled 1 (update_escrow 1 (\<lambda>e. e\<lparr>buyerConfirmed := True\<rparr>) funded))
        [DeliveryConfirmed 1 alice, Transfer treasury (25 * 10 ^ 17),
         Transfer bob (975 * 10 ^ 17), EscrowCompleted 1 (975 * 10 ^ 17) (25 * 10 ^ 17)]
   \<and> snd (run funded [(env_of alice 2000, ConfirmDelivery 1),
                       (env_of alice 700000, RequestRefund 1)])
       = [(ConfirmDelivery 1,
           [DeliveryConfirmed 1 alice, Transfer treasury (25 * 10 ^ 17),
            Transfer bob (975 * 10 ^ 17), EscrowCompleted 1 (975 * 10 ^ 17) (25 * 10 ^ 17)])]
   \<and> payouts 1 (snd (run funded [(env_of alice 2000, ConfirmDelivery 1),
                                 (env_of alice 700000, RequestRefund 1)])) \<le> 1
   \<and> exec (env_of carol 2000) EmergencyWithdraw funded
       = Inr (funded\<lparr>balance := 0\<rparr>, [Transfer carol (100 * ether)])
   \<and> msg_sender (env_of carol 2000) = owner funded
   \<and> transfers_of [Transfer carol (100 * ether)] = [(owner funded, unat (balance funded))]"
proof -
  have e1: "exec (env_of alice 2000) (ConfirmDelivery 1) funded
       = Inr (settled 1 (update_escrow 1 (\<lambda>e. e\<lparr>buyerConfirmed := True\<rparr>) funded),
              [DeliveryConfirmed 1 alice, Transfer treasury (25 * 10 ^ 17),
               Transfer bob (975 * 10 ^ 17), EscrowCompleted 1 (975 * 10 ^ 17) (25 * 10 ^ 17)])"
    by (simp add: confirm_sample)
  have e2: "exec (env_of alice 700000) (RequestRefund 1)
        (settled 1 (update_escrow 1 (\<lambda>e. e\<lparr>buyerConfirmed := True\<rparr>) funded))
      = Inl EscrowNotPending"
    by (simp add: requestRefund_def guard_defs settled_def sample_defs)
  have e3: "exec (env_of carol 2000) EmergencyWithdraw funded
       = Inr (funded\<lparr>balance := 0\<rparr>, [Transfer carol (100 * ether)])"
    by (simp add: emergencyWithdraw_def onlyOwner_def transfer_def sample_defs)
  have ne: "ConfirmDelivery 1 \<noteq> EmergencyWithdraw" by simp
  have log: "snd (run funded [(env_of alice 2000, ConfirmDelivery 1),
                       (env_of alice 700000, RequestRefund 1)])
       = [(ConfirmDelivery 1,
           [DeliveryConfirmed 1 alice, Transfer treasury (25 * 10 ^ 17),
            Transfer bob (975 * 10 ^ 17), EscrowCompleted 1 (975 * 10 ^ 17) (25 * 10 ^ 17)])]"
    using e1 e2 by simp
  have p: "pays_as_specified (ConfirmDelivery 1) funded
        (settled 1 (update_escrow 1 (\<lambda>e. e\<lparr>buyerConfirmed := True\<rparr>) funded))
        [DeliveryConfirmed 1 alice, Transfer treasury (25 * 10 ^ 17),
         Transfer bob (975 * 10 ^ 17), EscrowCompleted 1 (975 * 10 ^ 17) (25 * 10 ^ 17)]"
    using funds_leave_once_along_settlement_paths
      [of "ConfirmDelivery 1" "env_of alice 2000" funded
        "settled 1 (update_escrow 1 (\<lambda>e. e\<lparr>buyerConfirmed := True\<rparr>) funded)"
        "[DeliveryConfirmed 1 alice, Transfer treasury (25 * 10 ^ 17),
          Transfer bob (975 * 10 ^ 17), EscrowCompleted 1 (975 * 10 ^ 17) (25 * 10 ^ 17)]",
        THEN conjunct1] ne e1
    by blast
  have once: "payouts 1 (snd (run funded [(env_of alice 2000, ConfirmDelivery 1),
                                 (env_of alice 700000, RequestRefund 1)])) \<le> 1"
    using funds_leave_once_along_settlement_paths
      [of "ConfirmDelivery 1" "env_of alice 2000" funded funded "[]" 1
        "[(env_of alice 2000, ConfirmDelivery 1), (env_of alice 700000, RequestRefund 1)]",
        THEN conjunct2, THEN conjunct1] .
  have em: "msg_sender (env_of carol 2000) = owner funded
     \<and> transfers_of [Transfer carol (100 * ether)] = [(owner funded, unat (balance funded))]"
    using funds_leave_once_along_settlement_paths
      [of "ConfirmDelivery 1" "env_of carol 2000" funded "funded\<lparr>balance := 0\<rparr>"
        "[Transfer carol (100 * ether)]", THEN conjunct2, THEN conjunct2] e3
    by blast
  show ?thesis using ne e1 p log once e3 em by blast
qed

subsection \<open>A pending escrow has no buyer's confirmation\<close>

text \<open>
  The buyer's confirmation completes the escrow in the same call, so no call leaves an
  escrow PENDING with the buyer's flag set: the seller confirming "alone" is the only way
  the seller confirms a PENDING escrow, on every ledger that the contract's calls can
  produce from deployment.
\<close>

lemma exec_pending_unconfirmed:
  assumes "exec env op' s = Inr (s', fx)"
    and "status (escrows s j) = PENDING \<longrightarrow> \<not> buyerConfirmed (escrows s j)"
    and "status (escrows s' j) = PENDING"
  shows "\<not> buyerConfirmed (escrows s' j)"
proof (cases op')
  case (CreateEscrow v sel d days)
  then show ?thesis
    using assms
    by (auto simp: createEscrow_def Let_def split: if_splits option.splits)
next
  case (ConfirmDelivery i)
  then show ?thesis
    using assms confirmDelivery_Inr [of env i s s' fx] by (cases "j = i") auto
next
  case (RequestRefund i)
  then show ?thesis
    using assms
    by (cases "j = i") (auto simp: requestRefund_Inr_iff refunded_def update_escrow_def)
next
  case (RaiseDispute i)
  then show ?thesis
    using assms by (cases "j = i") (auto simp: raiseDispute_Inr_iff update_escrow_def)
next
  case (ResolveDispute i b)
  then show ?thesis
    using assms
    by (cases "j = i")
      (auto simp: resolveDispute_Inr_iff refunded_def settled_def update_escrow_def
        split: if_splits)
next
  case (UpdatePlatformFee f)
  then show ?thesis using assms by (auto simp: admin_Inr_iff)
next
  case (UpdatePlatformWallet w)
  then show ?thesis using assms by (auto simp: admin_Inr_iff)
next
  case EmergencyWithdraw
  then show ?thesis using assms by (auto simp: admin_Inr_iff)
qed

lemma run_pending_unconfirmed:
  assumes "\<forall>i. status (escrows s i) = PENDING \<longrightarrow> \<not> buyerConfirmed (escrows s i)"
  shows "\<forall>i. status (escrows (fst (run s calls)) i) = PENDING
           \<longrightarrow> \<not> buyerConfirmed (escrows (fst (run s calls)) i)"
  using assms
proof (induction calls arbitrary: s)
  case Nil
  then show ?case by simp
next
  case (Cons c calls)
  obtain env op' where c: "c = (env, op')" by (cases c)
  show ?case
  proof (cases "exec env op' s")
    case (Inl err)
    then show ?thesis using Cons c by simp
  next
    case (Inr r)
    obtain s' fx where r: "r = (s', fx)" by (cases r)
    have "\<forall>i. status (escrows s' i) = PENDING \<longrightarrow> \<not> buyerConfirmed (escrows s' i)"
      using exec_pending_unconfirmed [of env op' s s' fx] Inr r Cons.prems by blast
    then show ?thesis using Cons.IH [of s'] Inr r c by simp
  qed
qed

lemma deployed_pending_unconfirmed:
  "status (escrows (fst (run (constructor env platformWallet') calls)) i) = PENDING
     \<Longrightarrow> \<not> buyerConfirmed (escrows (fst (run (constructor env platformWallet') calls)) i)"
  using run_pending_unconfirmed [of "constructor env platformWallet'" calls]
  by (simp add: constructor_def zero_escrow_def)

end
